theory Spec2Isabelle
  imports Main
begin

section \<open>Strings\<close>

text \<open>
  A JavaScript string is a sequence of UTF-16 code units; a code unit is modelled as a
  natural number, so that \<open>length\<close> counts what \<open>String.length\<close> counts. Literals
  of the source are written \<open>js ''...''\<close>.
\<close>

type_synonym jsstring = "nat list"

definition js :: "string \<Rightarrow> jsstring" where
  "js s = map of_char s"

text \<open>\<open>String.prototype.startsWith\<close>, \<open>endsWith\<close> and \<open>includes\<close>.\<close>

definition startsWith :: "jsstring \<Rightarrow> jsstring \<Rightarrow> bool" where
  "startsWith s p = (take (length p) s = p)"

definition endsWith :: "jsstring \<Rightarrow> jsstring \<Rightarrow> bool" where
  "endsWith s p = (length p \<le> length s \<and> drop (length s - length p) s = p)"

fun includes_str :: "jsstring \<Rightarrow> jsstring \<Rightarrow> bool" where
  "includes_str [] p = (p = [])"
| "includes_str (c # cs) p = (startsWith (c # cs) p \<or> includes_str cs p)"

section \<open>Configuration values (ServerRepository)\<close>

text \<open>
  A configuration value is \<open>Date | string | boolean | number\<close>. Numbers are modelled
  as integers (the values for which \<open>String\<close> prints plain decimal digits); a date is
  the integer of its \<open>getTime()\<close>.
\<close>

datatype cfgval = CBool bool | CNum int | CStr jsstring | CDate int

definition isDigit :: "nat \<Rightarrow> bool" where
  "isDigit c = (48 \<le> c \<and> c \<le> 57)"

fun showNat :: "nat \<Rightarrow> jsstring" where
  "showNat n = (if n < 10 then [48 + n] else showNat (n div 10) @ [48 + n mod 10])"

definition showInt :: "int \<Rightarrow> jsstring" where
  "showInt i = (if i < 0 then 45 # showNat (nat (- i)) else showNat (nat i))"

definition readNat :: "jsstring \<Rightarrow> nat" where
  "readNat ds = foldl (\<lambda>acc d. 10 * acc + (d - 48)) 0 ds"

text \<open>The regular expression \<open>/^-{0,1}\d+$/\<close>.\<close>

fun isIntString :: "jsstring \<Rightarrow> bool" where
  "isIntString [] = False"
| "isIntString (c # cs) =
     (if c = 45 then cs \<noteq> [] \<and> list_all isDigit cs else list_all isDigit (c # cs))"

text \<open>\<open>Number(input)\<close> on a string accepted by \<open>isIntString\<close>.\<close>

fun readInt :: "jsstring \<Rightarrow> int" where
  "readInt [] = 0"
| "readInt (c # cs) = (if c = 45 then - int (readNat cs) else int (readNat (c # cs)))"

text \<open>
  \<open>convertFromDbValue\<close>: declared on strings, but \<open>getConfig\<close> also applies it to the
  typed values that \<open>loadConfig\<close> cached. On a boolean, a number or a date neither
  comparison with \<open>"1"\<close>/\<open>"0"\<close> holds, and the value is returned as it is (for a number
  through \<open>Number\<close>, which gives it back).
\<close>

fun convertFromDbValue :: "cfgval \<Rightarrow> cfgval" where
  "convertFromDbValue (CStr s) =
     (if s = js ''1'' \<or> s = js ''0'' then CBool (readInt s \<noteq> 0)
      else if isIntString s then CNum (readInt s)
      else CStr s)"
| "convertFromDbValue v = v"

fun convertToDbValue :: "cfgval \<Rightarrow> jsstring" where
  "convertToDbValue (CBool b) = (if b then js ''1'' else js ''0'')"
| "convertToDbValue (CDate t) = showInt t"
| "convertToDbValue (CNum n) = showInt n"
| "convertToDbValue (CStr s) = s"

text \<open>
  The repository: the cache \<open>config\<close>, the persisted \<open>Config\<close> table (name to value)
  and the \<open>config-update\<close> notifications sent to the UI.
\<close>

record server_repo =
  config :: "jsstring \<rightharpoonup> cfgval"
  configs :: "jsstring \<rightharpoonup> jsstring"
  uiEvents :: "jsstring list"

definition hasConfig :: "server_repo \<Rightarrow> jsstring \<Rightarrow> bool" where
  "hasConfig r name = (config r name \<noteq> None)"

definition getConfig :: "server_repo \<Rightarrow> jsstring \<Rightarrow> cfgval option" where
  "getConfig r name =
     (case config r name of None \<Rightarrow> None | Some v \<Rightarrow> Some (convertFromDbValue v))"

text \<open>
  The cache is a plain object: \<open>this.config[name] = saniVal\<close> creates or overwrites
  the own property \<open>name\<close>, except for the name \<open>__proto__\<close>, where assigning a
  string is dropped and the object keeps the keys it had.
\<close>

definition assignKey :: "(jsstring \<rightharpoonup> cfgval) \<Rightarrow> jsstring \<Rightarrow> jsstring \<Rightarrow> (jsstring \<rightharpoonup> cfgval)" where
  "assignKey obj name saniVal =
     (if name = js ''__proto__'' then obj else obj(name \<mapsto> CStr saniVal))"

text \<open>
  \<open>setConfig\<close>: the row is updated when it exists and created otherwise (both leave
  the table with the new value under the name), then the cache is assigned the string.
\<close>

definition setConfig :: "server_repo \<Rightarrow> jsstring \<Rightarrow> cfgval \<Rightarrow> server_repo" where
  "setConfig r name v =
     (let saniVal = convertToDbValue v in
      r\<lparr>configs := (configs r)(name \<mapsto> saniVal),
        config := assignKey (config r) name saniVal,
        uiEvents := uiEvents r @ [js ''config-update'']\<rparr>)"

section \<open>The system of record\<close>

text \<open>
  The rows of the message store, with the columns and relations the code reads.
  \<open>m_universalText\<close> is what \<open>universalText(false)\<close> returns for the message.
\<close>

record attachment =
  a_guid :: jsstring
  a_transferName :: "jsstring option"
  a_mimeType :: "jsstring option"
  a_uti :: "jsstring option"

record run =
  r_partAttr :: "int option"
  r_fileTransferGuid :: "jsstring option"

record message =
  m_guid :: jsstring
  m_text :: "jsstring option"
  m_universalText :: "jsstring option"
  m_isFromMe :: bool
  m_chats :: "jsstring list"
  m_date :: int
  m_attachments :: "attachment list"
  m_attributedBody :: "run list list"
  m_dateEdited :: "int option"
  m_didNotifyRecipient :: bool
  m_isSent :: bool

text \<open>
  The SQL function \<open>length\<close> on a text: the number of characters before the first
  NUL character. A character outside the basic plane is two code units of the
  JavaScript string, a high surrogate followed by a low one, and counts once.
\<close>

definition isHighSurrogate :: "nat \<Rightarrow> bool" where
  "isHighSurrogate c = (55296 \<le> c \<and> c \<le> 56319)"

definition isLowSurrogate :: "nat \<Rightarrow> bool" where
  "isLowSurrogate c = (56320 \<le> c \<and> c \<le> 57343)"

fun sqlLength :: "jsstring \<Rightarrow> nat" where
  "sqlLength [] = 0"
| "sqlLength [c] = (if c = 0 then 0 else 1)"
| "sqlLength (c # d # cs) =
     (if c = 0 then 0
      else if isHighSurrogate c \<and> isLowSurrogate d then Suc (sqlLength cs)
      else Suc (sqlLength (d # cs)))"

text \<open>
  A \<open>DBWhereItem\<close> is an SQL statement with its arguments; these are the four
  statements \<open>getEntries\<close> builds, and \<open>whereHolds\<close> is what each selects. A
  comparison with a NULL column or a NULL argument selects nothing.
\<close>

datatype where_item =
    IsFromMe nat
  | TextLengthIsOne
  | TransferNameIs "jsstring option"
  | TextIs jsstring

fun whereHolds :: "where_item \<Rightarrow> message \<Rightarrow> bool" where
  "whereHolds (IsFromMe v) m = ((if m_isFromMe m then 1 else 0) = v)"
| "whereHolds TextLengthIsOne m =
     (case m_text m of None \<Rightarrow> False | Some t \<Rightarrow> sqlLength t = 1)"
| "whereHolds (TransferNameIs name) m =
     (case name of None \<Rightarrow> False
      | Some n \<Rightarrow> list_ex (\<lambda>a. a_transferName a = Some n) (m_attachments m))"
| "whereHolds (TextIs t) m = (m_text m = Some t)"

datatype sort_order = ASC | DESC

record db_query =
  dq_chatGuid :: jsstring
  dq_limit :: nat
  dq_withHandle :: bool
  dq_after :: int
  dq_before :: int
  dq_sort :: sort_order
  dq_where :: "where_item list"

text \<open>
  Modelled from the spec: the row filter of \<open>getMessages\<close>, which is not among the
  sources in the form \<open>getEntries\<close> calls (the repository file at hand has an older,
  positional \<open>getMessages\<close>, which compares \<open>message.date >= :after\<close> and
  \<open>message.date < :before\<close>). The spec gives the query as restricted to the entry's
  chat and filtered: a row is selected when it belongs to the chat, its date is inside
  the window and it satisfies every \<open>where\<close> item.
\<close>

definition selects :: "db_query \<Rightarrow> message \<Rightarrow> bool" where
  "selects q m =
     (dq_chatGuid q \<in> set (m_chats m) \<and> dq_after q \<le> m_date m \<and> m_date m < dq_before q
      \<and> list_all (\<lambda>w. whereHolds w m) (dq_where q))"

text \<open>
  Modelled from the spec: \<open>getMessages\<close> with a \<open>where\<close> list and a sort order is not
  among the sources. The spec gives the query interface as accepting filtered queries
  with a small result window and returning rows ordered by a timestamp: the selected
  rows, ordered by date, cut at the limit.
\<close>

definition getMessages :: "db_query \<Rightarrow> message list \<Rightarrow> message list" where
  "getMessages q store =
     take (dq_limit q)
       (case dq_sort q of
          ASC \<Rightarrow> sort_key m_date (filter (selects q) store)
        | DESC \<Rightarrow> rev (sort_key m_date (filter (selects q) store)))"

section \<open>The outbox scanner (QueueService)\<close>

text \<open>
  A row of the \<open>Queue\<close> table: the fields \<open>getEntries\<close> reads, and the primary key
  by which \<open>repo.remove\<close> finds the row.
\<close>

record queue_entry =
  q_id :: nat
  q_tempGuid :: jsstring
  q_chatGuid :: jsstring
  q_dateCreated :: int
  q_text :: jsstring

datatype scanner_event =
    MessageTimeout queue_entry
  | MessageMatch jsstring message

record event_cache =
  ec_size :: nat
  ec_items :: "jsstring list"

text \<open>
  Modelled from the spec: the \<open>EventCache\<close> class is not among the sources. The spec
  gives it as a capacity-bounded set in insertion order: adding is idempotent, and an
  insertion beyond the capacity evicts the oldest identifiers.
\<close>

definition cache_add :: "event_cache \<Rightarrow> jsstring \<Rightarrow> event_cache" where
  "cache_add c i =
     (if i \<in> set (ec_items c) then c
      else c\<lparr>ec_items := drop (Suc (length (ec_items c)) - ec_size c) (ec_items c @ [i])\<rparr>)"

text \<open>
  The scanner's state: the persisted \<open>Queue\<close> table, the cache, the events emitted
  and the queries sent to the message store.
\<close>

record scanner =
  sc_queue :: "queue_entry list"
  sc_cache :: event_cache
  sc_events :: "scanner_event list"
  sc_queries :: "db_query list"

text \<open>\<open>repo.remove(entry)\<close> deletes the row with the entry's primary key.\<close>

definition repo_remove :: "queue_entry \<Rightarrow> queue_entry list \<Rightarrow> queue_entry list" where
  "repo_remove e es = filter (\<lambda>x. q_id x \<noteq> q_id e) es"

text \<open>\<open>text.split("->")\<close>: the pieces between the occurrences of \<open>->\<close>, left to right.\<close>

fun splitArrow :: "jsstring \<Rightarrow> jsstring \<Rightarrow> jsstring list" where
  "splitArrow cur [] = [rev cur]"
| "splitArrow cur [c] = [rev (c # cur)]"
| "splitArrow cur (c # d # cs) =
     (if c = 45 \<and> d = 62 then rev cur # splitArrow [] cs
      else splitArrow (c # cur) (d # cs))"

text \<open>\<open>entry.text.split("->")[1]\<close>, undefined when there is no second piece.\<close>

definition entryName :: "queue_entry \<Rightarrow> jsstring option" where
  "entryName e = (case splitArrow [] (q_text e) of _ # n # _ \<Rightarrow> Some n | _ \<Rightarrow> None)"

definition expired :: "int \<Rightarrow> queue_entry \<Rightarrow> bool" where
  "expired now e = (now - q_dateCreated e > 1000 * 60)"

definition entryWhere :: "queue_entry \<Rightarrow> where_item list" where
  "entryWhere e =
     (if startsWith (q_text e) (q_tempGuid e)
      then [IsFromMe 1, TextLengthIsOne, TransferNameIs (entryName e)]
      else [IsFromMe 1, TextIs (q_text e)])"

text \<open>
  The query of one entry. Its upper bound \<open>before\<close> is the reading of the clock taken
  when the query is built, a reading of its own for each entry and later than the
  reading \<open>now\<close> taken when the tick starts.
\<close>

definition entryQuery :: "int \<Rightarrow> queue_entry \<Rightarrow> db_query" where
  "entryQuery before e =
     \<lparr>dq_chatGuid = q_chatGuid e, dq_limit = 3, dq_withHandle = False,
      dq_after = q_dateCreated e, dq_before = before, dq_sort = ASC,
      dq_where = entryWhere e\<rparr>"

definition entryMatches :: "int \<Rightarrow> message list \<Rightarrow> queue_entry \<Rightarrow> message list" where
  "entryMatches before store e = getMessages (entryQuery before e) store"

text \<open>
  The body of \<open>matches.forEach\<close>, for one matched record. The callbacks of the
  matched records of one entry run one after the other up to their \<open>await\<close>, so their
  events are emitted together; the removals they start complete later, and the table
  they leave does not depend on the order.
\<close>

definition onMatch :: "queue_entry \<Rightarrow> scanner \<Rightarrow> message \<Rightarrow> scanner" where
  "onMatch e s m =
     s\<lparr>sc_cache := cache_add (sc_cache s) (m_guid m),
       sc_events := sc_events s @ [MessageMatch (q_tempGuid e) m],
       sc_queue := repo_remove e (sc_queue s)\<rparr>"

text \<open>
  \<open>entries.forEach(async ...)\<close> starts the callback of every entry without awaiting
  it. Each callback runs up to its first \<open>await\<close> at once, in the order of the table:
  for an expired entry that is the call of \<open>repo.remove\<close>, for any other entry the
  call of \<open>getMessages\<close> with the query built from the clock reading \<open>clock e\<close>.
\<close>

definition startEntry :: "int \<Rightarrow> (queue_entry \<Rightarrow> int) \<Rightarrow> scanner \<Rightarrow> queue_entry \<Rightarrow> scanner" where
  "startEntry now clock s e =
     (if expired now e then s
      else s\<lparr>sc_queries := sc_queries s @ [entryQuery (clock e) e]\<rparr>)"

text \<open>
  The rest of the callback of one entry, run when the awaited call completes: the
  expired entry is gone from the table and its timeout is emitted; the records the
  query returned are handled.
\<close>

definition completeEntry ::
  "int \<Rightarrow> (queue_entry \<Rightarrow> int) \<Rightarrow> message list \<Rightarrow> scanner \<Rightarrow> queue_entry \<Rightarrow> scanner" where
  "completeEntry now clock store s e =
     (if expired now e
      then s\<lparr>sc_queue := repo_remove e (sc_queue s),
             sc_events := sc_events s @ [MessageTimeout e]\<rparr>
      else foldl (onMatch e) s (entryMatches (clock e) store e))"

text \<open>
  One tick, for the entries found in the table when it starts: all callbacks are
  started, then they complete in the order in which their awaited calls complete.
  \<open>delay e\<close> is the time the awaited call of entry \<open>e\<close> takes; calls that take the
  same time complete in the order in which they were started.
\<close>

definition getEntries ::
  "int \<Rightarrow> (queue_entry \<Rightarrow> int) \<Rightarrow> (queue_entry \<Rightarrow> nat) \<Rightarrow> message list \<Rightarrow> scanner \<Rightarrow> scanner" where
  "getEntries now clock delay store s =
     foldl (completeEntry now clock store)
       (foldl (startEntry now clock) s (sc_queue s))
       (sort_key delay (sc_queue s))"

section \<open>The send orchestrator (MessageInterface)\<close>

text \<open>The errors the operations raise, one constructor for each message.\<close>

datatype error =
    NoChatGuid
  | InvalidSendMethod jsstring
  | PrivateApiUnavailable
  | FailedToSendMessage
  | MessageNotFoundAfter int
  | FailedToSendAttachment
  | AttachmentNotFoundAfter int
  | VenturaRequired
  | NotUnsentAfter int
  | NotEditedAfter int
  | NoReactionGuid
  | ReactionNotFoundAfter int
  | MontereyRequired
  | AlreadyNotified
  | NullDereference
  | External jsstring

text \<open>The lines written to the log, one constructor for each call of \<open>log\<close>.\<close>

datatype log_line =
    LogSendingMessage "jsstring option" jsstring
  | LogSendingAttachment "jsstring option" jsstring
  | LogAddingAwait jsstring "jsstring option" "jsstring option"
  | LogMatchFailed
  | LogConvertFailed
  | LogReactionSent jsstring

text \<open>The calls made to the file system and to the two send channels.\<close>

datatype channel_call =
    StopTyping jsstring
  | StartMessages
  | CopyAttachment jsstring "jsstring option" jsstring
  | ConvertMp3ToCaf jsstring jsstring
  | Unlink jsstring
  | ActionSendMessage jsstring jsstring "jsstring option" bool
  | ApiSend jsstring "jsstring option"
  | ApiSendAttachment jsstring jsstring bool
  | ApiUnsend jsstring jsstring int
  | ApiEdit jsstring jsstring jsstring int
  | ApiReact jsstring jsstring jsstring int
  | ApiNotify jsstring jsstring

text \<open>The arguments of the constructor of \<open>MessagePromise\<close>.\<close>

record message_promise =
  p_chatGuid :: jsstring
  p_text :: "jsstring option"
  p_isAttachment :: bool
  p_sentAt :: int
  p_subject :: "jsstring option"
  p_tempGuid :: "jsstring option"

text \<open>
  The server: the promises registered with the message manager, the typing cache, the
  log and the calls made so far.
\<close>

record server =
  messageManager :: "message_promise list"
  typingCache :: "jsstring list"
  logs :: "log_line list"
  calls :: "channel_call list"

text \<open>
  Modelled from the spec: the message manager's class is not among the sources. The
  spec gives \<open>add\<close> as registering the expectation with the registry, which owns it
  until it is resolved; the registry is the list of the expectations added, in order.
\<close>

definition manager_add :: "message_promise \<Rightarrow> message_promise list \<Rightarrow> message_promise list" where
  "manager_add awaiter ps = ps @ [awaiter]"

text \<open>
  The platform, and what the collaborators answer during one operation: the clock, the
  path \<open>copyAttachment\<close> returns, whether the conversion to caf succeeds, the error
  the automation channel raises if any, how the registered promise settles, what the
  privileged channel returns (an error, or the identifier of its result), the record
  fetched before the dispatch, and the records the polls fetch, one for each poll the
  deadline allows.
\<close>

record platform =
  privateApiOk :: bool
  isMinMonterey :: bool
  isMinVentura :: bool

record answers =
  w_clock :: int
  w_newPath :: jsstring
  w_convertOk :: bool
  w_action :: "error option"
  w_promise :: "error + message option"
  w_dispatch :: "error + jsstring option"
  w_before :: "message option"
  w_fetches :: "message option list"

text \<open>A string is truthy when it is neither null nor empty.\<close>

definition truthy :: "jsstring option \<Rightarrow> bool" where
  "truthy s = (case s of None \<Rightarrow> False | Some t \<Rightarrow> t \<noteq> [])"

text \<open>
  Modelled from the spec: \<open>checkPrivateApiStatus\<close> is not among the sources. The spec
  gives it as the precondition that the privileged channel is available and enabled,
  raised before any dispatch.
\<close>

definition checkPrivateApiStatus :: "platform \<Rightarrow> error option" where
  "checkPrivateApiStatus pf = (if privateApiOk pf then None else Some PrivateApiUnavailable)"

text \<open>
  Modelled from the spec: \<open>resultAwaiter\<close> is not among the sources. The spec gives it
  as the poll-until awaiter: at each poll the fetched value is returned at once when
  it is present (or, with a data condition, when that condition does not ask to keep
  looping) and the continuation predicate does not ask to keep waiting; otherwise the
  next poll follows; when the deadline has elapsed the result is the absence of a
  value, the last fetched value being discarded. The polls the deadline allows are
  the elements of the list. A condition that raises ends the wait with its error.
\<close>

fun resultAwaiter ::
  "('a option \<Rightarrow> error + bool) \<Rightarrow> ('a option \<Rightarrow> error + bool) \<Rightarrow> 'a option list
     \<Rightarrow> error + 'a option" where
  "resultAwaiter dataLoopCondition extraLoopCondition [] = Inr None"
| "resultAwaiter dataLoopCondition extraLoopCondition (d # ds) =
     (case dataLoopCondition d of
        Inl e \<Rightarrow> Inl e
      | Inr True \<Rightarrow> resultAwaiter dataLoopCondition extraLoopCondition ds
      | Inr False \<Rightarrow>
          (case extraLoopCondition d of
             Inl e \<Rightarrow> Inl e
           | Inr True \<Rightarrow> resultAwaiter dataLoopCondition extraLoopCondition ds
           | Inr False \<Rightarrow> Inr d))"

definition defaultDataLoopCondition :: "'a option \<Rightarrow> error + bool" where
  "defaultDataLoopCondition d = Inr (d = None)"

definition defaultExtraLoopCondition :: "'a option \<Rightarrow> error + bool" where
  "defaultExtraLoopCondition d = Inr False"

definition maxWaitMs :: int where
  "maxWaitMs = 30000"

subsection \<open>sendMessagePrivateApi, sendAttachmentPrivateApi\<close>

definition sendMessagePrivateApi ::
  "platform \<Rightarrow> answers \<Rightarrow> jsstring \<Rightarrow> jsstring option \<Rightarrow> server \<Rightarrow> (error + message option) \<times> server" where
  "sendMessagePrivateApi pf w chatGuid msg s =
     (case checkPrivateApiStatus pf of
        Some e \<Rightarrow> (Inl e, s)
      | None \<Rightarrow>
          (let s1 = s\<lparr>calls := calls s @ [ApiSend chatGuid msg]\<rparr> in
           case w_dispatch w of
             Inl e \<Rightarrow> (Inl e, s1)
           | Inr ident \<Rightarrow>
               if \<not> truthy ident then (Inl FailedToSendMessage, s1)
               else (case resultAwaiter defaultDataLoopCondition defaultExtraLoopCondition
                            (w_fetches w) of
                       Inl e \<Rightarrow> (Inl e, s1)
                     | Inr None \<Rightarrow> (Inl (MessageNotFoundAfter (maxWaitMs div 1000)), s1)
                     | Inr (Some m) \<Rightarrow> (Inr (Some m), s1))))"

definition sendAttachmentPrivateApi ::
  "platform \<Rightarrow> answers \<Rightarrow> jsstring \<Rightarrow> jsstring \<Rightarrow> bool \<Rightarrow> server \<Rightarrow> (error + message option) \<times> server" where
  "sendAttachmentPrivateApi pf w chatGuid filePath isAudioMessage s =
     (case checkPrivateApiStatus pf of
        Some e \<Rightarrow> (Inl e, s)
      | None \<Rightarrow>
          (let newPath = take (length filePath - 4) filePath @ js ''.caf'';
               convert = endsWith filePath (js ''.mp3'') \<and> isAudioMessage;
               s0 = (if convert
                     then (if w_convertOk w
                           then s\<lparr>calls := calls s @ [ConvertMp3ToCaf filePath newPath]\<rparr>
                           else s\<lparr>calls := calls s @ [ConvertMp3ToCaf filePath newPath],
                                  logs := logs s @ [LogConvertFailed]\<rparr>)
                     else s);
               filePath' = (if convert \<and> w_convertOk w then newPath else filePath);
               s1 = s0\<lparr>calls := calls s0 @ [ApiSendAttachment chatGuid filePath' isAudioMessage]\<rparr>
           in case w_dispatch w of
             Inl e \<Rightarrow> (Inl e, s1)
           | Inr ident \<Rightarrow>
               if \<not> truthy ident then (Inl FailedToSendAttachment, s1)
               else (case resultAwaiter defaultDataLoopCondition defaultExtraLoopCondition
                            (w_fetches w) of
                       Inl e \<Rightarrow> (Inl e, s1)
                     | Inr None \<Rightarrow> (Inl (AttachmentNotFoundAfter (maxWaitMs div 1000)), s1)
                     | Inr (Some m) \<Rightarrow> (Inr (Some m), s1))))"

subsection \<open>sendMessageSync\<close>

record send_message_params =
  sm_chatGuid :: jsstring
  sm_message :: "jsstring option"
  sm_method :: jsstring
  sm_subject :: "jsstring option"
  sm_tempGuid :: "jsstring option"

text \<open>The typing cache loses the chat, and typing is stopped, when the chat is in it.\<close>

definition clearTyping :: "jsstring \<Rightarrow> server \<Rightarrow> server" where
  "clearTyping chatGuid s =
     (if chatGuid \<in> set (typingCache s)
      then s\<lparr>typingCache := filter (\<lambda>c. c \<noteq> chatGuid) (typingCache s),
             calls := calls s @ [StopTyping chatGuid]\<rparr>
      else s)"

definition messageAwaiter :: "answers \<Rightarrow> send_message_params \<Rightarrow> message_promise" where
  "messageAwaiter w p =
     \<lparr>p_chatGuid = sm_chatGuid p, p_text = sm_message p, p_isAttachment = False,
      p_sentAt = w_clock w - 10000, p_subject = sm_subject p, p_tempGuid = sm_tempGuid p\<rparr>"

definition sendMessageSync ::
  "platform \<Rightarrow> answers \<Rightarrow> send_message_params \<Rightarrow> server \<Rightarrow> (error + message option) \<times> server" where
  "sendMessageSync pf w p s =
     (if sm_chatGuid p = [] then (Inl NoChatGuid, s)
      else
        (let awaiter = messageAwaiter w p;
             s1 = s\<lparr>logs := logs s @ [LogSendingMessage (sm_message p) (sm_chatGuid p),
                                       LogAddingAwait (sm_chatGuid p) (p_text awaiter) (sm_tempGuid p)],
                    messageManager := manager_add awaiter (messageManager s)\<rparr>;
             s2 = clearTyping (sm_chatGuid p) s1
         in if sm_method p = js ''apple-script''
            then (let s3 = s2\<lparr>calls := calls s2 @
                         [ActionSendMessage (sm_chatGuid p)
                            (case sm_message p of None \<Rightarrow> [] | Some t \<Rightarrow> t) None False]\<rparr>
                  in case w_action w of
                       Some e \<Rightarrow> (Inl e, s3)
                     | None \<Rightarrow> (w_promise w, s3))
            else if sm_method p = js ''private-api''
            then sendMessagePrivateApi pf w (sm_chatGuid p) (sm_message p) s2
            else (Inl (InvalidSendMethod (sm_method p)), s2)))"

subsection \<open>sendAttachmentSync\<close>

record send_attachment_params =
  sa_chatGuid :: jsstring
  sa_attachmentPath :: jsstring
  sa_attachmentName :: "jsstring option"
  sa_attachmentGuid :: "jsstring option"
  sa_method :: jsstring
  sa_isAudioMessage :: bool

text \<open>The name given to the awaiter: an mp3 sent as an audio message is stored as caf.\<close>

definition awaiterName :: "jsstring option \<Rightarrow> bool \<Rightarrow> jsstring option" where
  "awaiterName attachmentName isAudioMessage =
     (case attachmentName of
        None \<Rightarrow> None
      | Some aName \<Rightarrow>
          if endsWith aName (js ''.mp3'') \<and> isAudioMessage
          then Some (take (length aName - 4) aName @ js ''.caf'')
          else Some aName)"

definition attachmentAwaiter :: "answers \<Rightarrow> send_attachment_params \<Rightarrow> message_promise" where
  "attachmentAwaiter w p =
     \<lparr>p_chatGuid = sa_chatGuid p,
      p_text = awaiterName (sa_attachmentName p) (sa_isAudioMessage p),
      p_isAttachment = True, p_sentAt = w_clock w - 10000, p_subject = None,
      p_tempGuid = sa_attachmentGuid p\<rparr>"


text \<open>The temporary copy is deleted below Monterey when the automation channel sent it.\<close>

definition cleanup :: "platform \<Rightarrow> answers \<Rightarrow> send_attachment_params \<Rightarrow> server \<Rightarrow> server" where
  "cleanup pf w p s =
     (if \<not> isMinMonterey pf \<and> sa_method p = js ''apple-script''
      then s\<lparr>calls := calls s @ [Unlink (w_newPath w)]\<rparr> else s)"

text \<open>
  The \<open>try\<close> block of the privileged branch: the promise is awaited only for a record
  that is there and not marked sent; the \<open>catch\<close> block: a failure is logged when a
  record is there and raised again otherwise.
\<close>

definition awaitFallback :: "answers \<Rightarrow> message option \<Rightarrow> error + message option" where
  "awaitFallback w sentMessage =
     (case sentMessage of
        None \<Rightarrow> Inr None
      | Some m \<Rightarrow> if \<not> m_isSent m then w_promise w else Inr (Some m))"

definition catchFallback ::
  "message option \<Rightarrow> error + message option \<Rightarrow> server \<Rightarrow> (error + message option) \<times> server" where
  "catchFallback sentMessage r s =
     (case r of
        Inr v \<Rightarrow> (Inr v, s)
      | Inl e \<Rightarrow>
          if sentMessage \<noteq> None then (Inr sentMessage, s\<lparr>logs := logs s @ [LogMatchFailed]\<rparr>)
          else (Inl e, s))"

definition sendAttachmentSync ::
  "platform \<Rightarrow> answers \<Rightarrow> send_attachment_params \<Rightarrow> server \<Rightarrow> (error + message option) \<times> server" where
  "sendAttachmentSync pf w p s =
     (if sa_chatGuid p = [] then (Inl NoChatGuid, s)
      else
        (let newPath = w_newPath w;
             s1 = s\<lparr>calls := calls s @
                        [CopyAttachment (sa_attachmentPath p) (sa_attachmentName p) (sa_method p)],
                    logs := logs s @ [LogSendingAttachment (sa_attachmentName p) (sa_chatGuid p)]\<rparr>;
             s2 = (if sa_method p = js ''apple-script''
                   then s1\<lparr>calls := calls s1 @ [StartMessages]\<rparr> else s1);
             awaiter = attachmentAwaiter w p;
             s3 = s2\<lparr>logs := logs s2 @
                        [LogAddingAwait (sa_chatGuid p) (p_text awaiter) (sa_attachmentGuid p)],
                     messageManager := manager_add awaiter (messageManager s2)\<rparr>
         in if sa_method p = js ''apple-script''
            then (let s4 = s3\<lparr>calls := calls s3 @
                         [ActionSendMessage (sa_chatGuid p) [] (Some newPath) (sa_isAudioMessage p)]\<rparr>
                  in case w_action w of
                       Some e \<Rightarrow> (Inl e, s4)
                     | None \<Rightarrow>
                         (case w_promise w of
                            Inl e \<Rightarrow> (Inl e, s4)
                          | Inr v \<Rightarrow> (Inr v, cleanup pf w p s4)))
            else if sa_method p = js ''private-api''
            then (case sendAttachmentPrivateApi pf w (sa_chatGuid p) newPath (sa_isAudioMessage p) s3 of
                    (Inl e, s4) \<Rightarrow> (Inl e, s4)
                  | (Inr sentMessage, s4) \<Rightarrow>
                      (case catchFallback sentMessage (awaitFallback w sentMessage) s4 of
                         (Inl e, s5) \<Rightarrow> (Inl e, s5)
                       | (Inr v, s5) \<Rightarrow> (Inr v, cleanup pf w p s5)))
            else (Inl (InvalidSendMethod (sa_method p)), s3)))"

subsection \<open>unsendMessage, editMessage\<close>

text \<open>\<open>msg?.dateEdited ?? 0\<close>.\<close>

definition editDateOf :: "message option \<Rightarrow> int" where
  "editDateOf d =
     (case d of None \<Rightarrow> 0
      | Some m \<Rightarrow> (case m_dateEdited m of None \<Rightarrow> 0 | Some t \<Rightarrow> t))"

text \<open>The \<open>extraLoopCondition\<close> of both operations.\<close>

definition editLoopCondition :: "int \<Rightarrow> message option \<Rightarrow> error + bool" where
  "editLoopCondition currentEditDate d = Inr (editDateOf d \<le> currentEditDate)"

definition unsendMessage ::
  "platform \<Rightarrow> answers \<Rightarrow> jsstring \<Rightarrow> jsstring \<Rightarrow> int \<Rightarrow> server \<Rightarrow> (error + message option) \<times> server" where
  "unsendMessage pf w chatGuid messageGuid partIndex s =
     (case checkPrivateApiStatus pf of
        Some e \<Rightarrow> (Inl e, s)
      | None \<Rightarrow>
          if \<not> isMinVentura pf then (Inl VenturaRequired, s)
          else
            (let currentEditDate = editDateOf (w_before w);
                 s1 = s\<lparr>calls := calls s @ [ApiUnsend chatGuid messageGuid partIndex]\<rparr>
             in case w_dispatch w of
                  Inl e \<Rightarrow> (Inl e, s1)
                | Inr _ \<Rightarrow>
                    (case resultAwaiter defaultDataLoopCondition
                            (editLoopCondition currentEditDate) (w_fetches w) of
                       Inl e \<Rightarrow> (Inl e, s1)
                     | Inr None \<Rightarrow> (Inl (NotUnsentAfter (maxWaitMs div 1000)), s1)
                     | Inr (Some m) \<Rightarrow> (Inr (Some m), s1))))"

definition editMessage ::
  "platform \<Rightarrow> answers \<Rightarrow> jsstring \<Rightarrow> jsstring \<Rightarrow> jsstring \<Rightarrow> int \<Rightarrow> server \<Rightarrow> (error + message option) \<times> server" where
  "editMessage pf w chatGuid messageGuid editedMessage partIndex s =
     (case checkPrivateApiStatus pf of
        Some e \<Rightarrow> (Inl e, s)
      | None \<Rightarrow>
          if \<not> isMinVentura pf then (Inl VenturaRequired, s)
          else
            (let currentEditDate = editDateOf (w_before w);
                 s1 = s\<lparr>calls := calls s @ [ApiEdit chatGuid messageGuid editedMessage partIndex]\<rparr>
             in case w_dispatch w of
                  Inl e \<Rightarrow> (Inl e, s1)
                | Inr _ \<Rightarrow>
                    (case resultAwaiter defaultDataLoopCondition
                            (editLoopCondition currentEditDate) (w_fetches w) of
                       Inl e \<Rightarrow> (Inl e, s1)
                     | Inr None \<Rightarrow> (Inl (NotEditedAfter (maxWaitMs div 1000)), s1)
                     | Inr (Some m) \<Rightarrow> (Inr (Some m), s1))))"

subsection \<open>sendReaction\<close>

text \<open>
  The two reaction tables and the placeholder character come from modules that are
  not among the sources; they are parameters.
\<close>

record mappings =
  reactionTextMap :: "jsstring \<rightharpoonup> jsstring"
  negativeReactionTextMap :: "jsstring \<rightharpoonup> jsstring"
  invisibleMediaChar :: jsstring

text \<open>A template literal prints a missing table entry as \<open>undefined\<close>.\<close>

definition templ :: "jsstring option \<Rightarrow> jsstring" where
  "templ v = (case v of None \<Rightarrow> js ''undefined'' | Some t \<Rightarrow> t)"

text \<open>\<open>replace(pattern, replacement)\<close> with a string pattern: the first occurrence.\<close>

fun replaceFirst :: "jsstring \<Rightarrow> jsstring \<Rightarrow> jsstring \<Rightarrow> jsstring" where
  "replaceFirst [] p r = (if p = [] then r else [])"
| "replaceFirst (c # cs) p r =
     (if startsWith (c # cs) p then r @ drop (length p) (c # cs)
      else c # replaceFirst cs p r)"

text \<open>
  The two loops over the attributed body: a run of the part sets the guid, and both
  loops stop at the first guid that is truthy.
\<close>

fun scanRuns :: "int \<Rightarrow> jsstring option \<Rightarrow> run list \<Rightarrow> jsstring option" where
  "scanRuns partIndex g [] = g"
| "scanRuns partIndex g (r # rs) =
     (if r_partAttr r = Some partIndex
      then (if truthy (r_fileTransferGuid r) then r_fileTransferGuid r
            else scanRuns partIndex (r_fileTransferGuid r) rs)
      else scanRuns partIndex g rs)"

fun scanBody :: "int \<Rightarrow> jsstring option \<Rightarrow> run list list \<Rightarrow> jsstring option" where
  "scanBody partIndex g [] = g"
| "scanBody partIndex g (i # is) =
     (let g' = scanRuns partIndex g i
      in if truthy g' then g' else scanBody partIndex g' is)"

definition reactedText :: "message \<Rightarrow> jsstring" where
  "reactedText message = (case m_universalText message of None \<Rightarrow> [] | Some t \<Rightarrow> t)"

definition pickAttachment :: "mappings \<Rightarrow> message \<Rightarrow> int \<Rightarrow> attachment option" where
  "pickAttachment mp message partIndex =
     (let txt = reactedText message;
          isOnlyMedia = (length txt = 1 \<and> txt = invisibleMediaChar mp);
          matchingGuid = scanBody partIndex None (m_attributedBody message)
      in case find (\<lambda>a. Some (a_guid a) = matchingGuid) (m_attachments message) of
           Some a \<Rightarrow> Some a
         | None \<Rightarrow>
             (case m_attachments message of
                [] \<Rightarrow> None
              | a # _ \<Rightarrow> if isOnlyMedia then Some a else None))"

definition mediaDescription :: "attachment \<Rightarrow> jsstring" where
  "mediaDescription a =
     (let mime = (case a_mimeType a of None \<Rightarrow> [] | Some t \<Rightarrow> t);
          uti = (case a_uti a of None \<Rightarrow> [] | Some t \<Rightarrow> t)
      in if startsWith mime (js ''image'') then js ''an image''
         else if startsWith mime (js ''video'') then js ''a movie''
         else if startsWith mime (js ''audio'') \<or> includes_str uti (js ''coreaudio-format'')
         then js ''an audio message''
         else js ''an attachment'')"

text \<open>The quotation marks of the source are U+201C and U+201D.\<close>

definition quoted :: "jsstring \<Rightarrow> jsstring" where
  "quoted t = [8220] @ t @ [8221]"

definition reactionPrefix :: "mappings \<Rightarrow> jsstring \<Rightarrow> jsstring option" where
  "reactionPrefix mp reaction =
     (if startsWith reaction (js ''-'') then negativeReactionTextMap mp reaction
      else reactionTextMap mp reaction)"

definition reactionMatchText :: "mappings \<Rightarrow> message \<Rightarrow> jsstring \<Rightarrow> int \<Rightarrow> jsstring" where
  "reactionMatchText mp message reaction partIndex =
     (let msg = (case pickAttachment mp message partIndex of
                   Some a \<Rightarrow> mediaDescription a
                 | None \<Rightarrow> replaceFirst (quoted (reactedText message)) (invisibleMediaChar mp) [])
      in templ (reactionPrefix mp reaction) @ js '' '' @ msg)"

record send_reaction_params =
  sr_chatGuid :: jsstring
  sr_message :: message
  sr_reaction :: jsstring
  sr_tempGuid :: "jsstring option"
  sr_partIndex :: int

definition reactionAwaiter :: "mappings \<Rightarrow> answers \<Rightarrow> send_reaction_params \<Rightarrow> message_promise" where
  "reactionAwaiter mp w p =
     \<lparr>p_chatGuid = sr_chatGuid p,
      p_text = Some (reactionMatchText mp (sr_message p) (sr_reaction p) (sr_partIndex p)),
      p_isAttachment = False, p_sentAt = w_clock w - 10000, p_subject = None,
      p_tempGuid = sr_tempGuid p\<rparr>"

definition sendReaction ::
  "platform \<Rightarrow> mappings \<Rightarrow> answers \<Rightarrow> send_reaction_params \<Rightarrow> server \<Rightarrow> (error + message option) \<times> server" where
  "sendReaction pf mp w p s =
     (case checkPrivateApiStatus pf of
        Some e \<Rightarrow> (Inl e, s)
      | None \<Rightarrow>
          (let s1 = s\<lparr>messageManager := manager_add (reactionAwaiter mp w p) (messageManager s),
                      calls := calls s @
                        [ApiReact (sr_chatGuid p) (m_guid (sr_message p)) (sr_reaction p)
                           (sr_partIndex p)]\<rparr>
           in case w_dispatch w of
                Inl e \<Rightarrow> (Inl e, s1)
              | Inr None \<Rightarrow> (Inl NoReactionGuid, s1)
              | Inr (Some ident) \<Rightarrow>
                  if ident = [] then (Inl NoReactionGuid, s1)
                  else
                    (let s2 = s1\<lparr>logs := logs s1 @ [LogReactionSent ident]\<rparr>
                     in case resultAwaiter defaultDataLoopCondition defaultExtraLoopCondition
                               (w_fetches w) of
                          Inl e \<Rightarrow> (Inl e, s2)
                        | Inr (Some m) \<Rightarrow> (Inr (Some m), s2)
                        | Inr None \<Rightarrow>
                            (case w_promise w of
                               Inl e \<Rightarrow> (Inl e, s2)
                             | Inr None \<Rightarrow> (Inl (ReactionNotFoundAfter (maxWaitMs div 1000)), s2)
                             | Inr (Some m) \<Rightarrow> (Inr (Some m), s2)))))"

subsection \<open>notifySilencedMessage\<close>

text \<open>The \<open>dataLoopCondition\<close>: it reads the flag of the fetched record.\<close>

definition notifyLoopCondition :: "message option \<Rightarrow> error + bool" where
  "notifyLoopCondition d =
     (case d of None \<Rightarrow> Inl NullDereference | Some m \<Rightarrow> Inr (\<not> m_didNotifyRecipient m))"

definition notifySilencedMessage ::
  "platform \<Rightarrow> answers \<Rightarrow> jsstring \<Rightarrow> message \<Rightarrow> server \<Rightarrow> (error + message option) \<times> server" where
  "notifySilencedMessage pf w chatGuid message s =
     (case checkPrivateApiStatus pf of
        Some e \<Rightarrow> (Inl e, s)
      | None \<Rightarrow>
          if \<not> isMinMonterey pf then (Inl MontereyRequired, s)
          else if m_didNotifyRecipient message then (Inl AlreadyNotified, s)
          else
            (let s1 = s\<lparr>calls := calls s @ [ApiNotify chatGuid (m_guid message)]\<rparr>
             in case w_dispatch w of
                  Inl e \<Rightarrow> (Inl e, s1)
                | Inr _ \<Rightarrow>
                    (case resultAwaiter notifyLoopCondition defaultExtraLoopCondition
                            (w_fetches w) of
                       Inl e \<Rightarrow> (Inl e, s1)
                     | Inr retMessage \<Rightarrow> (Inr retMessage, s1))))"

section \<open>Sample records\<close>

text \<open>
  Values used to run the definitions on concrete inputs: a self-originated text
  message and an outbox entry of chat \<open>C\<close>, collaborators that answer nothing, an
  empty server, an empty scanner, clocks that read the same at every query, awaited
  calls that take no time or take longest for the first entry, and a platform with the
  private API enabled on the newest system.
\<close>

definition message_of :: "jsstring \<Rightarrow> jsstring \<Rightarrow> int \<Rightarrow> message" where
  "message_of g t d =
     \<lparr>m_guid = g, m_text = Some t, m_universalText = Some t, m_isFromMe = True,
      m_chats = [js ''C''], m_date = d, m_attachments = [], m_attributedBody = [],
      m_dateEdited = None, m_didNotifyRecipient = False, m_isSent = True\<rparr>"

definition entry_of :: "nat \<Rightarrow> jsstring \<Rightarrow> int \<Rightarrow> jsstring \<Rightarrow> queue_entry" where
  "entry_of n g d t =
     \<lparr>q_id = n, q_tempGuid = g, q_chatGuid = js ''C'', q_dateCreated = d, q_text = t\<rparr>"

definition no_answers :: answers where
  "no_answers =
     \<lparr>w_clock = 50000, w_newPath = js ''/tmp/a'', w_convertOk = True, w_action = None,
      w_promise = Inr None, w_dispatch = Inr None, w_before = None, w_fetches = []\<rparr>"

definition fresh_server :: server where
  "fresh_server = \<lparr>messageManager = [], typingCache = [], logs = [], calls = []\<rparr>"

definition fresh_scanner :: scanner where
  "fresh_scanner =
     \<lparr>sc_queue = [], sc_cache = \<lparr>ec_size = 100, ec_items = []\<rparr>, sc_events = [],
      sc_queries = []\<rparr>"

definition clock_200 :: "queue_entry \<Rightarrow> int" where
  "clock_200 e = 200"

definition clock_60002 :: "queue_entry \<Rightarrow> int" where
  "clock_60002 e = 60002"

definition no_delay :: "queue_entry \<Rightarrow> nat" where
  "no_delay e = 0"

definition slow_first :: "queue_entry \<Rightarrow> nat" where
  "slow_first e = (if q_id e = 1 then 5 else 1)"

definition current_platform :: platform where
  "current_platform = \<lparr>privateApiOk = True, isMinMonterey = True, isMinVentura = True\<rparr>"

lemmas samples =
  message_of_def entry_of_def no_answers_def fresh_server_def fresh_scanner_def
  current_platform_def clock_200_def clock_60002_def no_delay_def slow_first_def

section \<open>Configuration round trip\<close>

lemma showInt_zero: "showInt 0 = js ''0''"
  by (simp add: showInt_def js_def)

lemma showInt_one: "showInt 1 = js ''1''"
  by (simp add: showInt_def js_def)

lemma getConfig_setConfig:
  "name \<noteq> js ''__proto__'' \<Longrightarrow>
     getConfig (setConfig r name v) name = Some (convertFromDbValue (CStr (convertToDbValue v)))"
  by (simp add: getConfig_def setConfig_def assignKey_def Let_def)

lemma getConfig_setConfig_proto:
  "getConfig (setConfig r (js ''__proto__'') v) (js ''__proto__'') = getConfig r (js ''__proto__'')"
  by (simp add: getConfig_def setConfig_def assignKey_def Let_def)

text \<open>
  Claim C10, as amended. For every name other than \<open>__proto__\<close>: a boolean stored with
  \<open>setConfig\<close> is read back by \<open>getConfig\<close> as the same boolean; the numbers 0 and 1
  are stored as the strings \<open>"0"\<close> and \<open>"1"\<close>, and are read back as the booleans
  false and true, not as numbers, because \<open>convertFromDbValue\<close> turns a string into a
  boolean exactly when it is \<open>"1"\<close> or \<open>"0"\<close>, before the numeric parse. For the
  name \<open>__proto__\<close> the cache is not changed, and \<open>getConfig\<close> answers as before.
\<close>

theorem C10_config_round_trip:
  "(name \<noteq> js ''__proto__'' \<longrightarrow>
      getConfig (setConfig r name (CBool b)) name = Some (CBool b)
      \<and> getConfig (setConfig r name (CNum 0)) name = Some (CBool False)
      \<and> getConfig (setConfig r name (CNum 1)) name = Some (CBool True))
   \<and> convertToDbValue (CNum 0) = js ''0'' \<and> convertToDbValue (CNum 1) = js ''1''
   \<and> ((\<exists>c. convertFromDbValue (CStr t) = CBool c) \<longleftrightarrow> (t = js ''1'' \<or> t = js ''0''))
   \<and> getConfig (setConfig r (js ''__proto__'') v) (js ''__proto__'') =
       getConfig r (js ''__proto__'')"
proof -
  have bool: "name \<noteq> js ''__proto__'' \<longrightarrow>
      getConfig (setConfig r name (CBool b)) name = Some (CBool b)"
    by (simp add: getConfig_setConfig js_def readNat_def)
  have zero: "name \<noteq> js ''__proto__'' \<longrightarrow>
      getConfig (setConfig r name (CNum 0)) name = Some (CBool False)"
    by (simp add: getConfig_setConfig showInt_zero) (simp add: js_def readNat_def)
  have one: "name \<noteq> js ''__proto__'' \<longrightarrow>
      getConfig (setConfig r name (CNum 1)) name = Some (CBool True)"
    by (simp add: getConfig_setConfig showInt_one) (simp add: js_def readNat_def)
  have exactly: "(\<exists>c. convertFromDbValue (CStr t) = CBool c) \<longleftrightarrow> (t = js ''1'' \<or> t = js ''0'')"
    by simp
  have str: "convertToDbValue (CNum 0) = js ''0'' \<and> convertToDbValue (CNum 1) = js ''1''"
    by (simp add: showInt_zero showInt_one)
  from bool zero one exactly str getConfig_setConfig_proto [of r v] show ?thesis
    by blast
qed

text \<open>
  The claim as stated fails for the name \<open>__proto__\<close>: after \<open>setConfig\<close> with the
  boolean true on a repository with an empty cache, \<open>getConfig\<close> returns null.
\<close>

theorem C10_config_round_trip_counterexample:
  "getConfig (setConfig \<lparr>config = Map.empty, configs = Map.empty, uiEvents = []\<rparr>
      (js ''__proto__'') (CBool True)) (js ''__proto__'') = None"
  by (simp add: getConfig_def setConfig_def assignKey_def Let_def)

theorem C10_config_round_trip_witness:
  "getConfig (setConfig \<lparr>config = Map.empty, configs = Map.empty, uiEvents = []\<rparr>
      (js ''use_oled'') (CNum 1)) (js ''use_oled'') = Some (CBool True)
   \<and> getConfig (setConfig \<lparr>config = Map.empty, configs = Map.empty, uiEvents = []\<rparr>
      (js ''use_oled'') (CNum 0)) (js ''use_oled'') = Some (CBool False)
   \<and> getConfig (setConfig \<lparr>config = Map.empty, configs = Map.empty, uiEvents = []\<rparr>
      (js ''use_oled'') (CBool True)) (js ''use_oled'') = Some (CBool True)"
  using C10_config_round_trip [of "js ''use_oled''"
      "\<lparr>config = Map.empty, configs = Map.empty, uiEvents = []\<rparr>" True "js ''1''"]
  by (simp add: js_def)

section \<open>The outbox scanner: expiry and matching\<close>

lemma selects_entryQuery:
  "selects (entryQuery before e) m \<longleftrightarrow>
     m_isFromMe m \<and> q_chatGuid e \<in> set (m_chats m)
     \<and> q_dateCreated e \<le> m_date m \<and> m_date m < before
     \<and> (if startsWith (q_text e) (q_tempGuid e)
        then (\<exists>t. m_text m = Some t \<and> sqlLength t = 1)
             \<and> (\<exists>n a. entryName e = Some n \<and> a \<in> set (m_attachments m)
                      \<and> a_transferName a = Some n)
        else m_text m = Some (q_text e))"
  by (auto simp: selects_def entryQuery_def entryWhere_def list_ex_iff
           split: option.splits)

lemma entryMatches_eq:
  "entryMatches before store e =
     take 3 (sort_key m_date (filter (selects (entryQuery before e)) store))"
  by (simp add: entryMatches_def getMessages_def entryQuery_def)

lemma entryMatches_subset:
  "set (entryMatches before store e) \<subseteq> {m \<in> set store. selects (entryQuery before e) m}"
proof -
  have "set (entryMatches before store e)
          \<subseteq> set (sort_key m_date (filter (selects (entryQuery before e)) store))"
    unfolding entryMatches_eq by (rule set_take_subset)
  then show ?thesis by auto
qed

lemma entryMatches_all:
  assumes "length (filter (selects (entryQuery before e)) store) \<le> 3"
  shows "set (entryMatches before store e) = {m \<in> set store. selects (entryQuery before e) m}"
proof -
  have "length (sort_key m_date (filter (selects (entryQuery before e)) store)) \<le> 3"
    using assms by simp
  then have "entryMatches before store e =
      sort_key m_date (filter (selects (entryQuery before e)) store)"
    unfolding entryMatches_eq by simp
  then show ?thesis by auto
qed

lemma entryMatches_length: "length (entryMatches before store e) \<le> 3"
  by (simp add: entryMatches_eq)

lemma foldl_onMatch_events:
  "sc_events (foldl (onMatch e) s ms) = sc_events s @ map (MessageMatch (q_tempGuid e)) ms"
  by (induction ms arbitrary: s) (simp_all add: onMatch_def)

lemma foldl_onMatch_queries:
  "sc_queries (foldl (onMatch e) s ms) = sc_queries s"
  by (induction ms arbitrary: s) (simp_all add: onMatch_def)

lemma repo_remove_idem: "repo_remove e (repo_remove e es) = repo_remove e es"
  by (simp add: repo_remove_def)

lemma foldl_onMatch_queue:
  "sc_queue (foldl (onMatch e) s ms) = (if ms = [] then sc_queue s else repo_remove e (sc_queue s))"
  by (induction ms arbitrary: s) (simp_all add: onMatch_def repo_remove_idem)

lemma foldl_startEntry:
  "sc_queries (foldl (startEntry now clock) s es) =
     sc_queries s @ map (\<lambda>x. entryQuery (clock x) x) (filter (\<lambda>x. \<not> expired now x) es)"
  "sc_events (foldl (startEntry now clock) s es) = sc_events s"
  "sc_queue (foldl (startEntry now clock) s es) = sc_queue s"
  by (induction es arbitrary: s) (simp_all add: startEntry_def)

lemma completeEntry_events:
  "sc_events (completeEntry now clock store s e) =
     sc_events s @ (if expired now e then [MessageTimeout e]
                    else map (MessageMatch (q_tempGuid e)) (entryMatches (clock e) store e))"
  by (simp add: completeEntry_def foldl_onMatch_events)

lemma completeEntry_queries:
  "sc_queries (completeEntry now clock store s e) = sc_queries s"
  by (simp add: completeEntry_def foldl_onMatch_queries)

lemma completeEntry_queue:
  "sc_queue (completeEntry now clock store s e) =
     (if expired now e \<or> entryMatches (clock e) store e \<noteq> [] then repo_remove e (sc_queue s)
      else sc_queue s)"
  by (simp add: completeEntry_def foldl_onMatch_queue)

lemma foldl_completeEntry_events:
  "sc_events (foldl (completeEntry now clock store) s es) =
     sc_events s @ concat (map (\<lambda>e. if expired now e then [MessageTimeout e]
         else map (MessageMatch (q_tempGuid e)) (entryMatches (clock e) store e)) es)"
  by (induction es arbitrary: s) (simp_all add: completeEntry_events)

lemma foldl_completeEntry_queries:
  "sc_queries (foldl (completeEntry now clock store) s es) = sc_queries s"
  by (induction es arbitrary: s) (simp_all add: completeEntry_queries)

lemma foldl_completeEntry_queue:
  "sc_queue (foldl (completeEntry now clock store) s es) =
     filter (\<lambda>x. \<not> list_ex (\<lambda>e. (expired now e \<or> entryMatches (clock e) store e \<noteq> [])
                                 \<and> q_id x = q_id e) es) (sc_queue s)"
proof (induction es arbitrary: s)
  case Nil
  then show ?case by simp
next
  case (Cons e es)
  show ?case
    by (simp add: Cons.IH completeEntry_queue repo_remove_def)
qed

lemma getEntries_events:
  "sc_events (getEntries now clock delay store s) =
     sc_events s @ concat (map (\<lambda>e. if expired now e then [MessageTimeout e]
         else map (MessageMatch (q_tempGuid e)) (entryMatches (clock e) store e))
       (sort_key delay (sc_queue s)))"
  by (simp add: getEntries_def foldl_completeEntry_events foldl_startEntry)

lemma getEntries_queries:
  "sc_queries (getEntries now clock delay store s) =
     sc_queries s @ map (\<lambda>x. entryQuery (clock x) x) (filter (\<lambda>x. \<not> expired now x) (sc_queue s))"
  by (simp add: getEntries_def foldl_completeEntry_queries foldl_startEntry)

lemma getEntries_queue:
  "sc_queue (getEntries now clock delay store s) =
     filter (\<lambda>x. \<not> (\<exists>e \<in> set (sc_queue s).
                (expired now e \<or> entryMatches (clock e) store e \<noteq> []) \<and> q_id x = q_id e))
       (sc_queue s)"
  by (simp add: getEntries_def foldl_completeEntry_queue foldl_startEntry list_ex_iff)

text \<open>
  Claim C2. On a tick, a timeout event is emitted for an entry exactly when the entry is
  in the outbox and its age (now minus creation time) exceeds 60000 milliseconds; such
  an entry is deleted; and the matching query is sent exactly for the entries whose age
  is at most 60000 milliseconds, so none is run for an expired entry and an entry aged
  60 seconds or less is not expired.
\<close>

theorem C2_expiry:
  "(MessageTimeout e \<in> set (sc_events (getEntries now clock delay store s)) \<longleftrightarrow>
      MessageTimeout e \<in> set (sc_events s)
      \<or> (e \<in> set (sc_queue s) \<and> now - q_dateCreated e > 60000))
   \<and> (e \<in> set (sc_queue s) \<and> now - q_dateCreated e > 60000 \<longrightarrow>
        q_id e \<notin> q_id ` set (sc_queue (getEntries now clock delay store s)))
   \<and> sc_queries (getEntries now clock delay store s) =
       sc_queries s @ map (\<lambda>x. entryQuery (clock x) x)
         (filter (\<lambda>x. \<not> now - q_dateCreated x > 60000) (sc_queue s))"
proof -
  have ev: "MessageTimeout e \<in> set (sc_events (getEntries now clock delay store s)) \<longleftrightarrow>
      MessageTimeout e \<in> set (sc_events s)
      \<or> (e \<in> set (sc_queue s) \<and> now - q_dateCreated e > 60000)"
    by (auto simp: getEntries_events expired_def split: if_splits)
  have del: "e \<in> set (sc_queue s) \<and> now - q_dateCreated e > 60000 \<longrightarrow>
        q_id e \<notin> q_id ` set (sc_queue (getEntries now clock delay store s))"
    by (auto simp: getEntries_queue expired_def)
  have qu: "sc_queries (getEntries now clock delay store s) =
       sc_queries s @ map (\<lambda>x. entryQuery (clock x) x)
         (filter (\<lambda>x. \<not> now - q_dateCreated x > 60000) (sc_queue s))"
    by (simp add: getEntries_queries expired_def)
  from ev del qu show ?thesis by blast
qed

theorem C2_expiry_witness:
  "MessageTimeout (entry_of 1 (js ''t1'') 0 (js ''Hello''))
     \<in> set (sc_events (getEntries 60001 clock_60002 no_delay []
         (fresh_scanner\<lparr>sc_queue := [entry_of 1 (js ''t1'') 0 (js ''Hello''),
          entry_of 2 (js ''t2'') 1 (js ''Bye'')]\<rparr>)))
   \<and> MessageTimeout (entry_of 2 (js ''t2'') 1 (js ''Bye''))
     \<notin> set (sc_events (getEntries 60001 clock_60002 no_delay []
         (fresh_scanner\<lparr>sc_queue := [entry_of 1 (js ''t1'') 0 (js ''Hello''),
          entry_of 2 (js ''t2'') 1 (js ''Bye'')]\<rparr>)))
   \<and> 1 \<notin> q_id ` set (sc_queue (getEntries 60001 clock_60002 no_delay []
         (fresh_scanner\<lparr>sc_queue := [entry_of 1 (js ''t1'') 0 (js ''Hello''),
          entry_of 2 (js ''t2'') 1 (js ''Bye'')]\<rparr>)))
   \<and> sc_queries (getEntries 60001 clock_60002 no_delay []
         (fresh_scanner\<lparr>sc_queue := [entry_of 1 (js ''t1'') 0 (js ''Hello''),
          entry_of 2 (js ''t2'') 1 (js ''Bye'')]\<rparr>)) =
       [entryQuery 60002 (entry_of 2 (js ''t2'') 1 (js ''Bye''))]"
  using C2_expiry [of "(entry_of 1 (js ''t1'') 0 (js ''Hello''))" 60001 clock_60002 no_delay "[]"
      "(fresh_scanner\<lparr>sc_queue := [entry_of 1 (js ''t1'') 0 (js ''Hello''),
          entry_of 2 (js ''t2'') 1 (js ''Bye'')]\<rparr>)"]
    C2_expiry [of "(entry_of 2 (js ''t2'') 1 (js ''Bye''))" 60001 clock_60002 no_delay "[]"
      "(fresh_scanner\<lparr>sc_queue := [entry_of 1 (js ''t1'') 0 (js ''Hello''),
          entry_of 2 (js ''t2'') 1 (js ''Bye'')]\<rparr>)"]
  by (simp add: samples)

text \<open>
  Claim C8, as amended. When the callback of an entry that has not expired completes,
  one matched event is emitted for each record the bounded candidate query returned,
  so at most three and not at most one; when the query returns a record, the entry is
  no longer in the outbox after the tick; and the events of a tick are those of the
  entries of the outbox it starts with, entry by entry in the order in which their
  callbacks complete, so a removed entry is not matched on a later tick.
\<close>

theorem C8_matches_per_entry:
  "(\<not> expired now e \<longrightarrow>
      sc_events (completeEntry now clock store s e) =
        sc_events s @ map (MessageMatch (q_tempGuid e)) (entryMatches (clock e) store e))
   \<and> length (entryMatches (clock e) store e) \<le> 3
   \<and> (e \<in> set (sc_queue s) \<and> entryMatches (clock e) store e \<noteq> [] \<longrightarrow>
        q_id e \<notin> q_id ` set (sc_queue (getEntries now clock delay store s)))
   \<and> sc_events (getEntries now clock delay store s) =
        sc_events s @ concat (map (\<lambda>x. if expired now x then [MessageTimeout x]
            else map (MessageMatch (q_tempGuid x)) (entryMatches (clock x) store x))
          (sort_key delay (sc_queue s)))"
proof -
  have one: "\<not> expired now e \<longrightarrow>
      sc_events (completeEntry now clock store s e) =
        sc_events s @ map (MessageMatch (q_tempGuid e)) (entryMatches (clock e) store e)"
    by (simp add: completeEntry_events)
  have gone: "e \<in> set (sc_queue s) \<and> entryMatches (clock e) store e \<noteq> [] \<longrightarrow>
        q_id e \<notin> q_id ` set (sc_queue (getEntries now clock delay store s))"
    by (auto simp: getEntries_queue)
  from one gone getEntries_events [of now clock delay store s]
    entryMatches_length [of "clock e" store e]
  show ?thesis by blast
qed

text \<open>
  The claim as stated fails: with two records of the same text in the chat, one tick
  emits two matched events for the only entry of the outbox.
\<close>

theorem C8_single_match_counterexample:
  "sc_queue (fresh_scanner\<lparr>sc_queue := [entry_of 1 (js ''temp-1'') 100 (js ''Hello'')]\<rparr>) =
       [(entry_of 1 (js ''temp-1'') 100 (js ''Hello''))]
   \<and> sc_events (fresh_scanner\<lparr>sc_queue := [entry_of 1 (js ''temp-1'') 100 (js ''Hello'')]\<rparr>) = []
   \<and> sc_events (getEntries 200 clock_200 no_delay
         [message_of (js ''A'') (js ''Hello'') 150, message_of (js ''B'') (js ''Hello'') 160]
         (fresh_scanner\<lparr>sc_queue := [entry_of 1 (js ''temp-1'') 100 (js ''Hello'')]\<rparr>)) =
       [MessageMatch (js ''temp-1'') (message_of (js ''A'') (js ''Hello'') 150),
        MessageMatch (js ''temp-1'') (message_of (js ''B'') (js ''Hello'') 160)]"
  by (simp add: samples getEntries_def startEntry_def completeEntry_def expired_def
        entryMatches_def getMessages_def entryQuery_def entryWhere_def selects_def
        startsWith_def js_def onMatch_def)

theorem C8_matches_per_entry_witness:
  "sc_events (completeEntry 200 clock_200
       [message_of (js ''A'') (js ''Hello'') 150, message_of (js ''B'') (js ''Hello'') 160]
       (fresh_scanner\<lparr>sc_queue := [entry_of 1 (js ''temp-1'') 100 (js ''Hello'')]\<rparr>)
       (entry_of 1 (js ''temp-1'') 100 (js ''Hello''))) =
     [MessageMatch (js ''temp-1'') (message_of (js ''A'') (js ''Hello'') 150),
      MessageMatch (js ''temp-1'') (message_of (js ''B'') (js ''Hello'') 160)]
   \<and> length (entryMatches 200
         [message_of (js ''A'') (js ''Hello'') 150, message_of (js ''B'') (js ''Hello'') 160]
         (entry_of 1 (js ''temp-1'') 100 (js ''Hello''))) \<le> 3
   \<and> 1 \<notin> q_id ` set (sc_queue (getEntries 200 clock_200 no_delay
         [message_of (js ''A'') (js ''Hello'') 150, message_of (js ''B'') (js ''Hello'') 160]
         (fresh_scanner\<lparr>sc_queue := [entry_of 1 (js ''temp-1'') 100 (js ''Hello'')]\<rparr>)))
   \<and> sc_events (getEntries 60001 clock_60002 slow_first
         [(message_of (js ''A'') (js ''Hello'') 60001)]
         (fresh_scanner\<lparr>sc_queue := [entry_of 1 (js ''temp-1'') 60000 (js ''Hello''),
          entry_of 2 (js ''temp-2'') 0 (js ''Bye'')]\<rparr>)) =
       [MessageTimeout (entry_of 2 (js ''temp-2'') 0 (js ''Bye'')),
        MessageMatch (js ''temp-1'') (message_of (js ''A'') (js ''Hello'') 60001)]"
proof -
  have hits: "entryMatches 200
      [message_of (js ''A'') (js ''Hello'') 150, message_of (js ''B'') (js ''Hello'') 160]
      (entry_of 1 (js ''temp-1'') 100 (js ''Hello'')) =
      [message_of (js ''A'') (js ''Hello'') 150, message_of (js ''B'') (js ''Hello'') 160]"
    by (simp add: samples entryMatches_def getMessages_def entryQuery_def entryWhere_def
        selects_def startsWith_def js_def)
  have hit6: "entryMatches 60002
      [(message_of (js ''A'') (js ''Hello'') 60001)]
      (entry_of 1 (js ''temp-1'') 60000 (js ''Hello'')) =
      [(message_of (js ''A'') (js ''Hello'') 60001)]"
    by (simp add: samples entryMatches_def getMessages_def entryQuery_def entryWhere_def
        selects_def startsWith_def js_def)
  have fresh: "\<not> expired 200 (entry_of 1 (js ''temp-1'') 100 (js ''Hello''))"
    by (simp add: samples expired_def)
  show ?thesis
    using C8_matches_per_entry [of 200 "(entry_of 1 (js ''temp-1'') 100 (js ''Hello''))" clock_200
        "[message_of (js ''A'') (js ''Hello'') 150, message_of (js ''B'') (js ''Hello'') 160]"
        "(fresh_scanner\<lparr>sc_queue := [entry_of 1 (js ''temp-1'') 100 (js ''Hello'')]\<rparr>)" no_delay]
      C8_matches_per_entry [of 60001 "(entry_of 1 (js ''temp-1'') 60000 (js ''Hello''))" clock_60002
        "[(message_of (js ''A'') (js ''Hello'') 60001)]"
        "(fresh_scanner\<lparr>sc_queue := [entry_of 1 (js ''temp-1'') 60000 (js ''Hello''),
          entry_of 2 (js ''temp-2'') 0 (js ''Bye'')]\<rparr>)" slow_first]
      hits hit6 fresh
    by (simp add: samples expired_def)
qed

text \<open>
  Claim C1, as amended. A record counted for an entry is in the store, self-originated,
  in the entry's chat, dated at or after the entry's creation and before the clock
  reading of the query, and: when the entry's text starts with its temp identifier, the
  record's text is one character and one of its attachments has the transfer name stored
  in the entry; otherwise, the record's text equals the entry's text. When at most three
  records of the store satisfy this, exactly those records are counted.
\<close>

theorem C1_matching_rule:
  "(m \<in> set (entryMatches before store e) \<longrightarrow>
      m \<in> set store \<and> m_isFromMe m \<and> q_chatGuid e \<in> set (m_chats m)
          \<and> q_dateCreated e \<le> m_date m \<and> m_date m < before
          \<and> (if startsWith (q_text e) (q_tempGuid e)
             then (\<exists>t. m_text m = Some t \<and> sqlLength t = 1)
                  \<and> (\<exists>n a. entryName e = Some n \<and> a \<in> set (m_attachments m)
                           \<and> a_transferName a = Some n)
             else m_text m = Some (q_text e)))
   \<and> (length (filter (\<lambda>x.
          x \<in> set store \<and> m_isFromMe x \<and> q_chatGuid e \<in> set (m_chats x)
          \<and> q_dateCreated e \<le> m_date x \<and> m_date x < before
          \<and> (if startsWith (q_text e) (q_tempGuid e)
             then (\<exists>t. m_text x = Some t \<and> sqlLength t = 1)
                  \<and> (\<exists>n a. entryName e = Some n \<and> a \<in> set (m_attachments x)
                           \<and> a_transferName a = Some n)
             else m_text x = Some (q_text e))) store) \<le> 3 \<longrightarrow>
       (m \<in> set (entryMatches before store e) \<longleftrightarrow>
          m \<in> set store \<and> m_isFromMe m \<and> q_chatGuid e \<in> set (m_chats m)
          \<and> q_dateCreated e \<le> m_date m \<and> m_date m < before
          \<and> (if startsWith (q_text e) (q_tempGuid e)
             then (\<exists>t. m_text m = Some t \<and> sqlLength t = 1)
                  \<and> (\<exists>n a. entryName e = Some n \<and> a \<in> set (m_attachments m)
                           \<and> a_transferName a = Some n)
             else m_text m = Some (q_text e))))"
proof -
  have sound: "m \<in> set (entryMatches before store e) \<longrightarrow>
      m \<in> set store \<and> selects (entryQuery before e) m"
    using entryMatches_subset [of before store e] by auto
  have candidates: "filter (\<lambda>x.
          x \<in> set store \<and> m_isFromMe x \<and> q_chatGuid e \<in> set (m_chats x)
          \<and> q_dateCreated e \<le> m_date x \<and> m_date x < before
          \<and> (if startsWith (q_text e) (q_tempGuid e)
             then (\<exists>t. m_text x = Some t \<and> sqlLength t = 1)
                  \<and> (\<exists>n a. entryName e = Some n \<and> a \<in> set (m_attachments x)
                           \<and> a_transferName a = Some n)
             else m_text x = Some (q_text e))) store = filter (selects (entryQuery before e)) store"
    by (rule filter_cong) (simp_all add: selects_entryQuery)
  have complete: "length (filter (selects (entryQuery before e)) store) \<le> 3 \<longrightarrow>
      (m \<in> set (entryMatches before store e) \<longleftrightarrow> m \<in> set store \<and> selects (entryQuery before e) m)"
    using entryMatches_all [of before e store] by auto
  from sound complete show ?thesis
    unfolding candidates unfolding selects_entryQuery by blast
qed

text \<open>
  The claim as stated fails: for an entry that records an attachment, a record whose text
  equals the entry's stored text is not counted, although it is self-originated, in the
  entry's chat and dated after the entry's creation.
\<close>

theorem C1_matching_rule_counterexample:
  "(message_of (js ''G'') (js ''temp-7->a.png'') 150)
     \<notin> set (entryMatches 200 [(message_of (js ''G'') (js ''temp-7->a.png'') 150)]
         (entry_of 7 (js ''temp-7'') 100 (js ''temp-7->a.png'')))
   \<and> m_isFromMe (message_of (js ''G'') (js ''temp-7->a.png'') 150)
   \<and> q_chatGuid (entry_of 7 (js ''temp-7'') 100 (js ''temp-7->a.png''))
       \<in> set (m_chats (message_of (js ''G'') (js ''temp-7->a.png'') 150))
   \<and> q_dateCreated (entry_of 7 (js ''temp-7'') 100 (js ''temp-7->a.png''))
       \<le> m_date (message_of (js ''G'') (js ''temp-7->a.png'') 150)
   \<and> m_text (message_of (js ''G'') (js ''temp-7->a.png'') 150)
       = Some (q_text (entry_of 7 (js ''temp-7'') 100 (js ''temp-7->a.png'')))"
  by (simp add: samples entryMatches_def getMessages_def entryQuery_def entryWhere_def
        selects_def startsWith_def js_def)

theorem C1_matching_rule_witness:
  "(message_of (js ''I'') [55357, 56832] 150
         \<lparr>m_attachments := [\<lparr>a_guid = js ''at1'', a_transferName = Some (js ''a.png''),
           a_mimeType = None, a_uti = None\<rparr>]\<rparr>)
     \<in> set (entryMatches 200
         [(message_of (js ''G'') (js ''temp-7->a.png'') 150),
          (message_of (js ''I'') [55357, 56832] 150
         \<lparr>m_attachments := [\<lparr>a_guid = js ''at1'', a_transferName = Some (js ''a.png''),
           a_mimeType = None, a_uti = None\<rparr>]\<rparr>),
          (message_of (js ''J'') [120, 121] 150
         \<lparr>m_attachments := [\<lparr>a_guid = js ''at1'', a_transferName = Some (js ''a.png''),
           a_mimeType = None, a_uti = None\<rparr>]\<rparr>)]
         (entry_of 7 (js ''temp-7'') 100 (js ''temp-7->a.png'')))
   \<and> (message_of (js ''J'') [120, 121] 150
         \<lparr>m_attachments := [\<lparr>a_guid = js ''at1'', a_transferName = Some (js ''a.png''),
           a_mimeType = None, a_uti = None\<rparr>]\<rparr>)
     \<notin> set (entryMatches 200
         [(message_of (js ''G'') (js ''temp-7->a.png'') 150),
          (message_of (js ''I'') [55357, 56832] 150
         \<lparr>m_attachments := [\<lparr>a_guid = js ''at1'', a_transferName = Some (js ''a.png''),
           a_mimeType = None, a_uti = None\<rparr>]\<rparr>),
          (message_of (js ''J'') [120, 121] 150
         \<lparr>m_attachments := [\<lparr>a_guid = js ''at1'', a_transferName = Some (js ''a.png''),
           a_mimeType = None, a_uti = None\<rparr>]\<rparr>)]
         (entry_of 7 (js ''temp-7'') 100 (js ''temp-7->a.png'')))
   \<and> (message_of (js ''G'') (js ''temp-7->a.png'') 150)
     \<notin> set (entryMatches 200
         [(message_of (js ''G'') (js ''temp-7->a.png'') 150),
          (message_of (js ''I'') [55357, 56832] 150
         \<lparr>m_attachments := [\<lparr>a_guid = js ''at1'', a_transferName = Some (js ''a.png''),
           a_mimeType = None, a_uti = None\<rparr>]\<rparr>),
          (message_of (js ''J'') [120, 121] 150
         \<lparr>m_attachments := [\<lparr>a_guid = js ''at1'', a_transferName = Some (js ''a.png''),
           a_mimeType = None, a_uti = None\<rparr>]\<rparr>)]
         (entry_of 7 (js ''temp-7'') 100 (js ''temp-7->a.png'')))
   \<and> sqlLength [55357, 56832] = 1 \<and> sqlLength [120, 121] = 2
   \<and> entryName (entry_of 7 (js ''temp-7'') 100 (js ''temp-7->a.png'')) = Some (js ''a.png'')"
proof -
  have few: "\<And>P. length (filter P
         [(message_of (js ''G'') (js ''temp-7->a.png'') 150),
          (message_of (js ''I'') [55357, 56832] 150
         \<lparr>m_attachments := [\<lparr>a_guid = js ''at1'', a_transferName = Some (js ''a.png''),
           a_mimeType = None, a_uti = None\<rparr>]\<rparr>),
          (message_of (js ''J'') [120, 121] 150
         \<lparr>m_attachments := [\<lparr>a_guid = js ''at1'', a_transferName = Some (js ''a.png''),
           a_mimeType = None, a_uti = None\<rparr>]\<rparr>)]) \<le> 3"
    by (simp add: le_trans [OF length_filter_le])
  have name: "entryName (entry_of 7 (js ''temp-7'') 100 (js ''temp-7->a.png'')) = Some (js ''a.png'')"
    by (simp add: samples entryName_def js_def)
  have pre: "startsWith (q_text (entry_of 7 (js ''temp-7'') 100 (js ''temp-7->a.png'')))
      (q_tempGuid (entry_of 7 (js ''temp-7'') 100 (js ''temp-7->a.png'')))"
    by (simp add: samples startsWith_def js_def)
  have one: "sqlLength [55357, 56832] = 1"
    by (simp add: isHighSurrogate_def isLowSurrogate_def)
  have two: "sqlLength [120, 121] = 2"
    by (simp add: isHighSurrogate_def isLowSurrogate_def)
  have long: "sqlLength (js ''temp-7->a.png'') \<noteq> 1"
    by (simp add: js_def isHighSurrogate_def isLowSurrogate_def)
  show ?thesis
    using C1_matching_rule [of
        "(message_of (js ''I'') [55357, 56832] 150
         \<lparr>m_attachments := [\<lparr>a_guid = js ''at1'', a_transferName = Some (js ''a.png''),
           a_mimeType = None, a_uti = None\<rparr>]\<rparr>)" 200
        "[(message_of (js ''G'') (js ''temp-7->a.png'') 150),
          (message_of (js ''I'') [55357, 56832] 150
         \<lparr>m_attachments := [\<lparr>a_guid = js ''at1'', a_transferName = Some (js ''a.png''),
           a_mimeType = None, a_uti = None\<rparr>]\<rparr>),
          (message_of (js ''J'') [120, 121] 150
         \<lparr>m_attachments := [\<lparr>a_guid = js ''at1'', a_transferName = Some (js ''a.png''),
           a_mimeType = None, a_uti = None\<rparr>]\<rparr>)]"
        "(entry_of 7 (js ''temp-7'') 100 (js ''temp-7->a.png''))"]
      C1_matching_rule [of
        "(message_of (js ''J'') [120, 121] 150
         \<lparr>m_attachments := [\<lparr>a_guid = js ''at1'', a_transferName = Some (js ''a.png''),
           a_mimeType = None, a_uti = None\<rparr>]\<rparr>)" 200
        "[(message_of (js ''G'') (js ''temp-7->a.png'') 150),
          (message_of (js ''I'') [55357, 56832] 150
         \<lparr>m_attachments := [\<lparr>a_guid = js ''at1'', a_transferName = Some (js ''a.png''),
           a_mimeType = None, a_uti = None\<rparr>]\<rparr>),
          (message_of (js ''J'') [120, 121] 150
         \<lparr>m_attachments := [\<lparr>a_guid = js ''at1'', a_transferName = Some (js ''a.png''),
           a_mimeType = None, a_uti = None\<rparr>]\<rparr>)]"
        "(entry_of 7 (js ''temp-7'') 100 (js ''temp-7->a.png''))"]
      C1_matching_rule [of
        "(message_of (js ''G'') (js ''temp-7->a.png'') 150)" 200
        "[(message_of (js ''G'') (js ''temp-7->a.png'') 150),
          (message_of (js ''I'') [55357, 56832] 150
         \<lparr>m_attachments := [\<lparr>a_guid = js ''at1'', a_transferName = Some (js ''a.png''),
           a_mimeType = None, a_uti = None\<rparr>]\<rparr>),
          (message_of (js ''J'') [120, 121] 150
         \<lparr>m_attachments := [\<lparr>a_guid = js ''at1'', a_transferName = Some (js ''a.png''),
           a_mimeType = None, a_uti = None\<rparr>]\<rparr>)]"
        "(entry_of 7 (js ''temp-7'') 100 (js ''temp-7->a.png''))"]
      few name pre one two long
    by (simp add: samples)
qed

section \<open>Text sends\<close>

lemma clearTyping_fields:
  "messageManager (clearTyping c s) = messageManager s"
  "typingCache (clearTyping c s) = filter (\<lambda>x. x \<noteq> c) (typingCache s)"
  "logs (clearTyping c s) = logs s"
  "calls (clearTyping c s) = calls s @ (if c \<in> set (typingCache s) then [StopTyping c] else [])"
  by (auto simp: clearTyping_def intro: filter_True [symmetric])

lemma sendMessageSync_invalid:
  assumes "sm_chatGuid p \<noteq> []"
    and "sm_method p \<noteq> js ''apple-script''" and "sm_method p \<noteq> js ''private-api''"
  shows "sendMessageSync pf w p s =
     (Inl (InvalidSendMethod (sm_method p)),
      clearTyping (sm_chatGuid p)
        (s\<lparr>logs := logs s @ [LogSendingMessage (sm_message p) (sm_chatGuid p),
                               LogAddingAwait (sm_chatGuid p) (sm_message p) (sm_tempGuid p)],
           messageManager := messageManager s @ [messageAwaiter w p]\<rparr>))"
  using assms by (simp add: sendMessageSync_def Let_def messageAwaiter_def manager_add_def)

text \<open>
  Claim C9. \<open>sendMessageSync\<close> registers the expectation and clears the chat from the
  typing cache before it looks at the send method: a call with a chat identifier and a
  method that is neither \<open>apple-script\<close> nor \<open>private-api\<close> raises the invalid-method
  error, and leaves a server whose message manager holds the new expectation and whose
  typing cache has lost the chat, hence not the server it started from.
\<close>

theorem C9_invalid_method_leaves_expectation:
  assumes "sm_chatGuid p \<noteq> []"
    and "sm_method p \<noteq> js ''apple-script''" and "sm_method p \<noteq> js ''private-api''"
  shows "fst (sendMessageSync pf w p s) = Inl (InvalidSendMethod (sm_method p))
    \<and> messageManager (snd (sendMessageSync pf w p s)) = messageManager s @ [messageAwaiter w p]
    \<and> typingCache (snd (sendMessageSync pf w p s)) =
        filter (\<lambda>c. c \<noteq> sm_chatGuid p) (typingCache s)
    \<and> snd (sendMessageSync pf w p s) \<noteq> s"
proof -
  let ?s' = "snd (sendMessageSync pf w p s)"
  have mm: "messageManager ?s' = messageManager s @ [messageAwaiter w p]"
    by (simp add: sendMessageSync_invalid [OF assms] clearTyping_fields)
  have tc: "typingCache ?s' = filter (\<lambda>c. c \<noteq> sm_chatGuid p) (typingCache s)"
    by (simp add: sendMessageSync_invalid [OF assms] clearTyping_fields)
  have "messageManager ?s' \<noteq> messageManager s"
    using mm by simp
  then have "?s' \<noteq> s" by auto
  with mm tc show ?thesis
    by (simp add: sendMessageSync_invalid [OF assms])
qed

theorem C9_invalid_method_leaves_expectation_witness:
  "fst (sendMessageSync current_platform no_answers
        \<lparr>sm_chatGuid = js ''X'', sm_message = Some (js ''ping''), sm_method = js ''sms'',
         sm_subject = None, sm_tempGuid = Some (js ''temp-1'')\<rparr>
        (fresh_server\<lparr>typingCache := [js ''X'', js ''Y'']\<rparr>))
            = Inl (InvalidSendMethod (js ''sms''))
   \<and> messageManager (snd (sendMessageSync current_platform no_answers
        \<lparr>sm_chatGuid = js ''X'', sm_message = Some (js ''ping''), sm_method = js ''sms'',
         sm_subject = None, sm_tempGuid = Some (js ''temp-1'')\<rparr>
        (fresh_server\<lparr>typingCache := [js ''X'', js ''Y'']\<rparr>))) =
       [\<lparr>p_chatGuid = js ''X'', p_text = Some (js ''ping''), p_isAttachment = False,
         p_sentAt = 40000, p_subject = None, p_tempGuid = Some (js ''temp-1'')\<rparr>]
   \<and> typingCache (snd (sendMessageSync current_platform no_answers
        \<lparr>sm_chatGuid = js ''X'', sm_message = Some (js ''ping''), sm_method = js ''sms'',
         sm_subject = None, sm_tempGuid = Some (js ''temp-1'')\<rparr>
        (fresh_server\<lparr>typingCache := [js ''X'', js ''Y'']\<rparr>))) = [js ''Y'']
   \<and> snd (sendMessageSync current_platform no_answers
        \<lparr>sm_chatGuid = js ''X'', sm_message = Some (js ''ping''), sm_method = js ''sms'',
         sm_subject = None, sm_tempGuid = Some (js ''temp-1'')\<rparr>
        (fresh_server\<lparr>typingCache := [js ''X'', js ''Y'']\<rparr>))
            \<noteq> (fresh_server\<lparr>typingCache := [js ''X'', js ''Y'']\<rparr>)"
  using C9_invalid_method_leaves_expectation [of
      "\<lparr>sm_chatGuid = js ''X'', sm_message = Some (js ''ping''), sm_method = js ''sms'',
         sm_subject = None, sm_tempGuid = Some (js ''temp-1'')\<rparr>"
      current_platform no_answers "(fresh_server\<lparr>typingCache := [js ''X'',
          js ''Y'']\<rparr>)"]
  by (simp add: samples messageAwaiter_def js_def)

section \<open>Attachment sends\<close>






lemma resultAwaiter_default:
  "resultAwaiter defaultDataLoopCondition defaultExtraLoopCondition fs =
     Inr (case find (\<lambda>d. d \<noteq> None) fs of None \<Rightarrow> None | Some d \<Rightarrow> d)"
  by (induction fs) (auto simp: defaultDataLoopCondition_def defaultExtraLoopCondition_def)

lemma sendAttachmentPrivateApi_result:
  assumes "privateApiOk pf" and "w_dispatch w = Inr (Some ident)" and "ident \<noteq> []"
    and "resultAwaiter defaultDataLoopCondition defaultExtraLoopCondition (w_fetches w) = Inr (Some m)"
  shows "fst (sendAttachmentPrivateApi pf w c path audio s) = Inr (Some m)"
    and "messageManager (snd (sendAttachmentPrivateApi pf w c path audio s)) = messageManager s"
  using assms
  by (simp_all add: sendAttachmentPrivateApi_def checkPrivateApiStatus_def truthy_def Let_def)


lemma sendAttachmentPrivateApi_logs:
  "logs (snd (sendAttachmentPrivateApi pf w c path audio s)) =
     logs s @ (if privateApiOk pf \<and> endsWith path (js ''.mp3'') \<and> audio \<and> \<not> w_convertOk w
               then [LogConvertFailed] else [])"
  by (simp add: sendAttachmentPrivateApi_def checkPrivateApiStatus_def Let_def
      split: sum.splits option.splits)

lemma cleanup_fields:
  "messageManager (cleanup pf w p s) = messageManager s"
  "logs (cleanup pf w p s) = logs s"
  by (simp_all add: cleanup_def)



lemma private_not_script: "js ''private-api'' \<noteq> js ''apple-script''"
  by (simp add: js_def)

lemma sendAttachmentPrivateApi_promise:
  "sendAttachmentPrivateApi pf (w\<lparr>w_promise := x\<rparr>) c path audio s =
     sendAttachmentPrivateApi pf w c path audio s"
  by (auto simp: sendAttachmentPrivateApi_def Let_def split: option.splits sum.splits)

lemma sendAttachmentPrivateApi_sent:
  assumes "privateApiOk pf" and "w_dispatch w = Inr (Some ident)" and "ident \<noteq> []"
    and "resultAwaiter defaultDataLoopCondition defaultExtraLoopCondition (w_fetches w) = Inr (Some m)"
  shows "\<exists>s4. sendAttachmentPrivateApi pf w c path audio s = (Inr (Some m), s4)
              \<and> logs s4 = logs s @ (if endsWith path (js ''.mp3'') \<and> audio \<and> \<not> w_convertOk w
                                      then [LogConvertFailed] else [])"
  using assms
  by (simp add: sendAttachmentPrivateApi_def checkPrivateApiStatus_def truthy_def Let_def)

lemma sendAttachmentSync_private:
  assumes "sa_chatGuid p \<noteq> []" and "sa_method p = js ''private-api''"
    and "sendAttachmentPrivateApi pf w (sa_chatGuid p) (w_newPath w) (sa_isAudioMessage p)
           (s\<lparr>calls := calls s @
                  [CopyAttachment (sa_attachmentPath p) (sa_attachmentName p) (sa_method p)],
                logs := logs s @ [LogSendingAttachment (sa_attachmentName p) (sa_chatGuid p),
                  LogAddingAwait (sa_chatGuid p) (p_text (attachmentAwaiter w p)) (sa_attachmentGuid p)],
                messageManager := messageManager s @ [attachmentAwaiter w p]\<rparr>)
         = (Inr sent, s4)"
  shows "sendAttachmentSync pf w p s =
     (case catchFallback sent (awaitFallback w sent) s4 of
        (Inl e, s5) \<Rightarrow> (Inl e, s5)
      | (Inr v, s5) \<Rightarrow> (Inr v, cleanup pf w p s5))"
  using assms by (simp add: sendAttachmentSync_def Let_def private_not_script manager_add_def)

text \<open>
  Claim C6. In a privileged attachment send whose dispatch returned a record: when the
  record is marked sent the result is that record and the registered promise is not
  consulted; when it is not marked sent the promise is awaited, its value is the result
  if it resolves, and if it fails the failure is logged and the record already obtained
  is the result. The \<open>catch\<close> block raises the failure again exactly when there is no
  record.
\<close>

theorem C6_attachment_partial_success:
  assumes "sa_chatGuid p \<noteq> []" and "sa_method p = js ''private-api''"
    and "privateApiOk pf" and "w_dispatch w = Inr (Some ident)" and "ident \<noteq> []"
    and "resultAwaiter defaultDataLoopCondition defaultExtraLoopCondition (w_fetches w)
           = Inr (Some m)"
  shows "(m_isSent m \<longrightarrow>
            fst (sendAttachmentSync pf w p s) = Inr (Some m)
            \<and> sendAttachmentSync pf (w\<lparr>w_promise := x\<rparr>) p s = sendAttachmentSync pf w p s)
    \<and> (\<not> m_isSent m \<and> w_promise w = Inr v \<longrightarrow> fst (sendAttachmentSync pf w p s) = Inr v)
    \<and> (\<not> m_isSent m \<and> w_promise w = Inl err \<longrightarrow>
            fst (sendAttachmentSync pf w p s) = Inr (Some m)
            \<and> LogMatchFailed \<in> set (logs (snd (sendAttachmentSync pf w p s))))
    \<and> ((fst (catchFallback sentMessage (Inl err) s') = Inl err) = (sentMessage = None))"
proof -
  let ?s3 = "\<lambda>w. s\<lparr>calls := calls s @
                  [CopyAttachment (sa_attachmentPath p) (sa_attachmentName p) (sa_method p)],
                logs := logs s @ [LogSendingAttachment (sa_attachmentName p) (sa_chatGuid p),
                  LogAddingAwait (sa_chatGuid p) (p_text (attachmentAwaiter w p)) (sa_attachmentGuid p)],
                messageManager := messageManager s @ [attachmentAwaiter w p]\<rparr>"
  obtain s4 where api: "sendAttachmentPrivateApi pf w (sa_chatGuid p) (w_newPath w)
        (sa_isAudioMessage p) (?s3 w) = (Inr (Some m), s4)"
    using sendAttachmentPrivateApi_sent [OF assms(3-6)] by blast
  note run = sendAttachmentSync_private [OF assms(1,2) api]
  have same: "attachmentAwaiter (w\<lparr>w_promise := x\<rparr>) p = attachmentAwaiter w p"
    by (simp add: attachmentAwaiter_def)
  have api': "sendAttachmentPrivateApi pf (w\<lparr>w_promise := x\<rparr>) (sa_chatGuid p)
        (w_newPath (w\<lparr>w_promise := x\<rparr>)) (sa_isAudioMessage p) (?s3 (w\<lparr>w_promise := x\<rparr>))
        = (Inr (Some m), s4)"
    using api by (simp add: sendAttachmentPrivateApi_promise same)
  note run' = sendAttachmentSync_private [OF assms(1,2) api']
  have sent: "m_isSent m \<longrightarrow>
            fst (sendAttachmentSync pf w p s) = Inr (Some m)
            \<and> sendAttachmentSync pf (w\<lparr>w_promise := x\<rparr>) p s = sendAttachmentSync pf w p s"
    by (simp add: run run' catchFallback_def awaitFallback_def cleanup_def)
  have resolved: "\<not> m_isSent m \<and> w_promise w = Inr v \<longrightarrow>
            fst (sendAttachmentSync pf w p s) = Inr v"
    by (simp add: run catchFallback_def awaitFallback_def)
  have swallowed: "\<not> m_isSent m \<and> w_promise w = Inl err \<longrightarrow>
            fst (sendAttachmentSync pf w p s) = Inr (Some m)
            \<and> LogMatchFailed \<in> set (logs (snd (sendAttachmentSync pf w p s)))"
    by (simp add: run catchFallback_def awaitFallback_def cleanup_fields)
  have raised: "(fst (catchFallback sentMessage (Inl err) s') = Inl err) = (sentMessage = None)"
    by (simp add: catchFallback_def)
  from sent resolved swallowed raised show ?thesis by blast
qed

theorem C6_attachment_partial_success_witness:
  "fst (sendAttachmentSync current_platform
        (no_answers\<lparr>w_promise := Inl (External (js ''timeout'')),
          w_dispatch := Inr (Some (js ''id-1'')),
          w_fetches := [None,
              Some (message_of (js ''M1'')
              (js ''x'') 150\<lparr>m_isSent := False\<rparr>)]\<rparr>)
        \<lparr>sa_chatGuid = js ''C'', sa_attachmentPath = js ''/in/clip.mp3'',
         sa_attachmentName = Some (js ''clip.mp3''), sa_attachmentGuid = Some (js ''temp-9''),
         sa_method = js ''private-api'', sa_isAudioMessage = True\<rparr> fresh_server)
             = Inr (Some (message_of (js ''M1'') (js ''x'') 150\<lparr>m_isSent := False\<rparr>))
   \<and> LogMatchFailed \<in> set (logs (snd (sendAttachmentSync current_platform
        (no_answers\<lparr>w_promise := Inl (External (js ''timeout'')),
          w_dispatch := Inr (Some (js ''id-1'')),
          w_fetches := [None,
              Some (message_of (js ''M1'')
              (js ''x'') 150\<lparr>m_isSent := False\<rparr>)]\<rparr>)
        \<lparr>sa_chatGuid = js ''C'', sa_attachmentPath = js ''/in/clip.mp3'',
         sa_attachmentName = Some (js ''clip.mp3''), sa_attachmentGuid = Some (js ''temp-9''),
         sa_method = js ''private-api'', sa_isAudioMessage = True\<rparr> fresh_server)))
   \<and> fst (sendAttachmentSync current_platform
        (no_answers\<lparr>w_promise := Inr (Some (message_of (js ''M1'') (js ''x'') 151)),
          w_dispatch := Inr (Some (js ''id-1'')),
          w_fetches := [None,
              Some (message_of (js ''M1'')
              (js ''x'') 150\<lparr>m_isSent := False\<rparr>)]\<rparr>)
        \<lparr>sa_chatGuid = js ''C'', sa_attachmentPath = js ''/in/clip.mp3'',
         sa_attachmentName = Some (js ''clip.mp3''), sa_attachmentGuid = Some (js ''temp-9''),
         sa_method = js ''private-api'', sa_isAudioMessage = True\<rparr> fresh_server)
             = Inr (Some (message_of (js ''M1'') (js ''x'') 151))
   \<and> fst (sendAttachmentSync current_platform
        (no_answers\<lparr>w_promise := Inl (External (js ''timeout'')),
          w_dispatch := Inr (Some (js ''id-1'')),
          w_fetches := [None, Some (message_of (js ''M1'') (js ''x'') 150)]\<rparr>)
        \<lparr>sa_chatGuid = js ''C'', sa_attachmentPath = js ''/in/clip.mp3'',
         sa_attachmentName = Some (js ''clip.mp3''), sa_attachmentGuid = Some (js ''temp-9''),
         sa_method = js ''private-api'', sa_isAudioMessage = True\<rparr> fresh_server)
             = Inr (Some (message_of (js ''M1'') (js ''x'') 150))
   \<and> sendAttachmentSync current_platform
        ((no_answers\<lparr>w_promise := Inl (External (js ''timeout'')),
          w_dispatch := Inr (Some (js ''id-1'')),
          w_fetches := [None,
              Some (message_of (js ''M1'')
              (js ''x'') 150)]\<rparr>)\<lparr>w_promise := Inr None\<rparr>)
        \<lparr>sa_chatGuid = js ''C'', sa_attachmentPath = js ''/in/clip.mp3'',
         sa_attachmentName = Some (js ''clip.mp3''), sa_attachmentGuid = Some (js ''temp-9''),
         sa_method = js ''private-api'', sa_isAudioMessage = True\<rparr> fresh_server =
       sendAttachmentSync current_platform
        (no_answers\<lparr>w_promise := Inl (External (js ''timeout'')),
          w_dispatch := Inr (Some (js ''id-1'')),
          w_fetches := [None, Some (message_of (js ''M1'') (js ''x'') 150)]\<rparr>)
        \<lparr>sa_chatGuid = js ''C'', sa_attachmentPath = js ''/in/clip.mp3'',
         sa_attachmentName = Some (js ''clip.mp3''), sa_attachmentGuid = Some (js ''temp-9''),
         sa_method = js ''private-api'', sa_isAudioMessage = True\<rparr> fresh_server
   \<and> fst (catchFallback None (Inl (External (js ''timeout''))) fresh_server) =
       Inl (External (js ''timeout''))"
proof -
  have poll: "resultAwaiter defaultDataLoopCondition defaultExtraLoopCondition
      (w_fetches (no_answers\<lparr>w_promise := Inl (External (js ''timeout'')),
          w_dispatch := Inr (Some (js ''id-1'')),
          w_fetches := [None,
              Some (message_of (js ''M1'')
              (js ''x'') 150\<lparr>m_isSent := False\<rparr>)]\<rparr>))
              = Inr (Some (message_of (js ''M1'') (js ''x'') 150\<lparr>m_isSent := False\<rparr>))"
    by (simp add: samples defaultDataLoopCondition_def defaultExtraLoopCondition_def)
  have pollR: "resultAwaiter defaultDataLoopCondition defaultExtraLoopCondition
      (w_fetches (no_answers\<lparr>w_promise := Inr (Some (message_of (js ''M1'') (js ''x'') 151)),
          w_dispatch := Inr (Some (js ''id-1'')),
          w_fetches := [None,
              Some (message_of (js ''M1'')
              (js ''x'') 150\<lparr>m_isSent := False\<rparr>)]\<rparr>))
              = Inr (Some (message_of (js ''M1'') (js ''x'') 150\<lparr>m_isSent := False\<rparr>))"
    by (simp add: samples defaultDataLoopCondition_def defaultExtraLoopCondition_def)
  have pollD: "resultAwaiter defaultDataLoopCondition defaultExtraLoopCondition
      (w_fetches (no_answers\<lparr>w_promise := Inl (External (js ''timeout'')),
          w_dispatch := Inr (Some (js ''id-1'')),
          w_fetches := [None, Some (message_of (js ''M1'') (js ''x'') 150)]\<rparr>))
              = Inr (Some (message_of (js ''M1'') (js ''x'') 150))"
    by (simp add: samples defaultDataLoopCondition_def defaultExtraLoopCondition_def)
  show ?thesis
    using C6_attachment_partial_success [where p = "\<lparr>sa_chatGuid = js ''C'',
        sa_attachmentPath = js ''/in/clip.mp3'',
         sa_attachmentName = Some (js ''clip.mp3''), sa_attachmentGuid = Some (js ''temp-9''),
         sa_method = js ''private-api'', sa_isAudioMessage = True\<rparr>"
        and pf = current_platform
        and w = "(no_answers\<lparr>w_promise := Inl (External (js ''timeout'')),
          w_dispatch := Inr (Some (js ''id-1'')),
          w_fetches := [None,
              Some (message_of (js ''M1'')
              (js ''x'') 150\<lparr>m_isSent := False\<rparr>)]\<rparr>)"
        and ident = "js ''id-1''" and m
            = "(message_of (js ''M1'') (js ''x'') 150\<lparr>m_isSent := False\<rparr>)"
        and s = fresh_server and err = "External (js ''timeout'')" and sentMessage = None
        and s' = fresh_server, OF _ _ _ _ _ poll]
      C6_attachment_partial_success [where p = "\<lparr>sa_chatGuid = js ''C'', sa_attachmentPath
          = js ''/in/clip.mp3'',
         sa_attachmentName = Some (js ''clip.mp3''), sa_attachmentGuid = Some (js ''temp-9''),
         sa_method = js ''private-api'', sa_isAudioMessage = True\<rparr>"
        and pf = current_platform
        and w = "(no_answers\<lparr>w_promise := Inr (Some (message_of (js ''M1'') (js ''x'') 151)),
          w_dispatch := Inr (Some (js ''id-1'')),
          w_fetches := [None,
              Some (message_of (js ''M1'')
              (js ''x'') 150\<lparr>m_isSent := False\<rparr>)]\<rparr>)"
        and ident = "js ''id-1''" and m
            = "(message_of (js ''M1'') (js ''x'') 150\<lparr>m_isSent := False\<rparr>)"
        and s = fresh_server and v = "Some (message_of (js ''M1'') (js ''x'') 151)",
        OF _ _ _ _ _ pollR]
      C6_attachment_partial_success [where p = "\<lparr>sa_chatGuid = js ''C'', sa_attachmentPath
          = js ''/in/clip.mp3'',
         sa_attachmentName = Some (js ''clip.mp3''), sa_attachmentGuid = Some (js ''temp-9''),
         sa_method = js ''private-api'', sa_isAudioMessage = True\<rparr>"
        and pf = current_platform
        and w = "(no_answers\<lparr>w_promise := Inl (External (js ''timeout'')),
          w_dispatch := Inr (Some (js ''id-1'')),
          w_fetches := [None, Some (message_of (js ''M1'') (js ''x'') 150)]\<rparr>)"
        and ident = "js ''id-1''" and m = "(message_of (js ''M1'') (js ''x'') 150)"
        and s = fresh_server and x = "Inr None", OF _ _ _ _ _ pollD]
    by (simp add: samples js_def)
qed



section \<open>Confirmation polls: edit, unsend and notify\<close>

lemma resultAwaiter_step:
  assumes "dataLoop d = Inr x" and "extraLoop d = Inr y"
  shows "resultAwaiter dataLoop extraLoop (d # ds) =
           (if x \<or> y then resultAwaiter dataLoop extraLoop ds else Inr d)"
  using assms by (simp split: bool.splits)

lemma resultAwaiter_edit_step:
  "resultAwaiter defaultDataLoopCondition (editLoopCondition b) (d # ds) =
     (if d = None \<or> editDateOf d \<le> b
      then resultAwaiter defaultDataLoopCondition (editLoopCondition b) ds else Inr d)"
  by (rule resultAwaiter_step) (simp_all add: defaultDataLoopCondition_def editLoopCondition_def)

lemma resultAwaiter_edit:
  "resultAwaiter defaultDataLoopCondition (editLoopCondition b) fs =
     Inr (case find (\<lambda>d. d \<noteq> None \<and> b < editDateOf d) fs of None \<Rightarrow> None | Some d \<Rightarrow> d)"
  by (induction fs) (auto simp: resultAwaiter_edit_step simp del: resultAwaiter.simps(2))

lemma resultAwaiter_edit_Some:
  assumes "resultAwaiter defaultDataLoopCondition (editLoopCondition b) fs = Inr (Some m)"
  shows "Some m \<in> set fs \<and> b < editDateOf (Some m)"
proof -
  from assms obtain d where d: "find (\<lambda>d. d \<noteq> None \<and> b < editDateOf d) fs = Some d" "d = Some m"
    by (auto simp: resultAwaiter_edit split: option.splits)
  from d(1) have "d \<in> set fs \<and> b < editDateOf d"
    by (auto simp: find_Some_iff intro: nth_mem)
  with d(2) show ?thesis by simp
qed

lemma resultAwaiter_edit_stale:
  assumes "list_all (\<lambda>d. editDateOf d \<le> b) fs"
  shows "resultAwaiter defaultDataLoopCondition (editLoopCondition b) fs = Inr None"
  using assms
  by (induction fs) (auto simp: resultAwaiter_edit_step simp del: resultAwaiter.simps(2))

lemma editMessage_resolves:
  assumes "fst (editMessage pf w c g t i s) = Inr r"
  shows "\<exists>m. r = Some m \<and> Some m \<in> set (w_fetches w)
              \<and> editDateOf (w_before w) < editDateOf (Some m)"
  using assms resultAwaiter_edit_Some [of "editDateOf (w_before w)" "w_fetches w"]
  by (auto simp: editMessage_def Let_def split: option.splits sum.splits if_splits)

lemma unsendMessage_resolves:
  assumes "fst (unsendMessage pf w c g i s) = Inr r"
  shows "\<exists>m. r = Some m \<and> Some m \<in> set (w_fetches w)
              \<and> editDateOf (w_before w) < editDateOf (Some m)"
  using assms resultAwaiter_edit_Some [of "editDateOf (w_before w)" "w_fetches w"]
  by (auto simp: unsendMessage_def Let_def split: option.splits sum.splits if_splits)

text \<open>
  Claim C3. The continuation predicate of edit and unsend asks to keep waiting exactly
  when the fetched record's edit timestamp, taken as 0 for a missing record or a missing
  timestamp, is at most the baseline read before the dispatch. Hence an edit or an
  unsend that returns a record returns one of the fetched records whose edit timestamp
  strictly exceeds the baseline, and neither returns a record when no fetched record
  exceeds it.
\<close>

theorem C3_edit_baseline:
  "editLoopCondition b d = Inr (editDateOf d \<le> b)
   \<and> editDateOf None = 0 \<and> (m_dateEdited m0 = None \<longrightarrow> editDateOf (Some m0) = 0)
   \<and> (fst (editMessage pf w c g t i s) = Inr r \<longrightarrow>
        (\<exists>m. r = Some m \<and> Some m \<in> set (w_fetches w)
             \<and> editDateOf (w_before w) < editDateOf (Some m)))
   \<and> (fst (unsendMessage pf w c g i s) = Inr r' \<longrightarrow>
        (\<exists>m. r' = Some m \<and> Some m \<in> set (w_fetches w)
             \<and> editDateOf (w_before w) < editDateOf (Some m)))
   \<and> (list_all (\<lambda>d. editDateOf d \<le> editDateOf (w_before w)) (w_fetches w) \<longrightarrow>
        (\<forall>v. fst (editMessage pf w c g t i s) \<noteq> Inr v)
        \<and> (\<forall>v. fst (unsendMessage pf w c g i s) \<noteq> Inr v))"
proof -
  have zero: "m_dateEdited m0 = None \<longrightarrow> editDateOf (Some m0) = 0"
    by (simp add: editDateOf_def)
  have edit: "fst (editMessage pf w c g t i s) = Inr r \<longrightarrow>
        (\<exists>m. r = Some m \<and> Some m \<in> set (w_fetches w)
             \<and> editDateOf (w_before w) < editDateOf (Some m))"
    using editMessage_resolves by blast
  have unsend: "fst (unsendMessage pf w c g i s) = Inr r' \<longrightarrow>
        (\<exists>m. r' = Some m \<and> Some m \<in> set (w_fetches w)
             \<and> editDateOf (w_before w) < editDateOf (Some m))"
    using unsendMessage_resolves by blast
  have stale: "list_all (\<lambda>d. editDateOf d \<le> editDateOf (w_before w)) (w_fetches w) \<longrightarrow>
        (\<forall>v. fst (editMessage pf w c g t i s) \<noteq> Inr v)
        \<and> (\<forall>v. fst (unsendMessage pf w c g i s) \<noteq> Inr v)"
    by (auto simp: editMessage_def unsendMessage_def Let_def resultAwaiter_edit_stale
        split: option.splits sum.splits)
  from zero edit unsend stale show ?thesis
    by (simp add: editLoopCondition_def editDateOf_def)
qed

theorem C3_edit_baseline_witness:
  "fst (editMessage current_platform
        (no_answers\<lparr>w_before := Some (message_of (js ''G'')
            (js ''old'') 150\<lparr>m_dateEdited := Some 5\<rparr>),
          w_fetches := [Some (message_of (js ''G'')
              (js ''old'') 150\<lparr>m_dateEdited := Some 5\<rparr>),
            Some (message_of (js ''G'')
                (js ''fixed'') 150\<lparr>m_dateEdited := Some 9\<rparr>)]\<rparr>)
        (js ''C'') (js ''G'') (js ''fixed'') 0 fresh_server) =
       Inr (Some (message_of (js ''G'') (js ''fixed'') 150\<lparr>m_dateEdited := Some 9\<rparr>))
   \<and> fst (unsendMessage current_platform
        (no_answers\<lparr>w_before := Some (message_of (js ''G'')
            (js ''old'') 150\<lparr>m_dateEdited := Some 5\<rparr>),
          w_fetches := [Some (message_of (js ''G'')
              (js ''old'') 150\<lparr>m_dateEdited := Some 5\<rparr>),
            Some (message_of (js ''G'')
                (js ''fixed'') 150\<lparr>m_dateEdited := Some 9\<rparr>)]\<rparr>)
        (js ''C'') (js ''G'') 0 fresh_server) =
       Inr (Some (message_of (js ''G'') (js ''fixed'') 150\<lparr>m_dateEdited := Some 9\<rparr>))
   \<and> editDateOf (Some (message_of (js ''G'')
       (js ''old'') 150\<lparr>m_dateEdited := Some 5\<rparr>)) = 5
   \<and> editDateOf (Some (message_of (js ''G'')
       (js ''fixed'') 150\<lparr>m_dateEdited := Some 9\<rparr>)) = 9
   \<and> editDateOf (Some (message_of (js ''G'') (js ''hi'') 150)) = 0
   \<and> fst (editMessage current_platform
        (no_answers\<lparr>w_before := Some (message_of (js ''G'')
            (js ''old'') 150\<lparr>m_dateEdited := Some 5\<rparr>),
          w_fetches := [None,
              Some (message_of (js ''G'') (js ''old'') 150\<lparr>m_dateEdited := Some 5\<rparr>),
            Some (message_of (js ''G'')
                (js ''old'') 150\<lparr>m_dateEdited := Some 5\<rparr>)]\<rparr>)
        (js ''C'') (js ''G'') (js ''fixed'') 0 fresh_server) = Inl (NotEditedAfter 30)
   \<and> fst (unsendMessage current_platform
        (no_answers\<lparr>w_before := Some (message_of (js ''G'')
            (js ''old'') 150\<lparr>m_dateEdited := Some 5\<rparr>),
          w_fetches := [None,
              Some (message_of (js ''G'') (js ''old'') 150\<lparr>m_dateEdited := Some 5\<rparr>),
            Some (message_of (js ''G'')
                (js ''old'') 150\<lparr>m_dateEdited := Some 5\<rparr>)]\<rparr>)
        (js ''C'') (js ''G'') 0 fresh_server) = Inl (NotUnsentAfter 30)"
proof -
  have edit: "fst (editMessage current_platform
        (no_answers\<lparr>w_before := Some (message_of (js ''G'')
            (js ''old'') 150\<lparr>m_dateEdited := Some 5\<rparr>),
          w_fetches := [Some (message_of (js ''G'')
              (js ''old'') 150\<lparr>m_dateEdited := Some 5\<rparr>),
            Some (message_of (js ''G'')
                (js ''fixed'') 150\<lparr>m_dateEdited := Some 9\<rparr>)]\<rparr>)
        (js ''C'') (js ''G'') (js ''fixed'') 0 fresh_server) =
       Inr (Some (message_of (js ''G'') (js ''fixed'') 150\<lparr>m_dateEdited := Some 9\<rparr>))"
    by (simp add: samples editMessage_def checkPrivateApiStatus_def Let_def editDateOf_def
        defaultDataLoopCondition_def editLoopCondition_def)
  have unsend: "fst (unsendMessage current_platform
        (no_answers\<lparr>w_before := Some (message_of (js ''G'')
            (js ''old'') 150\<lparr>m_dateEdited := Some 5\<rparr>),
          w_fetches := [Some (message_of (js ''G'')
              (js ''old'') 150\<lparr>m_dateEdited := Some 5\<rparr>),
            Some (message_of (js ''G'')
                (js ''fixed'') 150\<lparr>m_dateEdited := Some 9\<rparr>)]\<rparr>)
        (js ''C'') (js ''G'') 0 fresh_server) =
       Inr (Some (message_of (js ''G'') (js ''fixed'') 150\<lparr>m_dateEdited := Some 9\<rparr>))"
    by (simp add: samples unsendMessage_def checkPrivateApiStatus_def Let_def editDateOf_def
        defaultDataLoopCondition_def editLoopCondition_def)
  have stale_edit: "fst (editMessage current_platform
        (no_answers\<lparr>w_before := Some (message_of (js ''G'')
            (js ''old'') 150\<lparr>m_dateEdited := Some 5\<rparr>),
          w_fetches := [None,
              Some (message_of (js ''G'') (js ''old'') 150\<lparr>m_dateEdited := Some 5\<rparr>),
            Some (message_of (js ''G'')
                (js ''old'') 150\<lparr>m_dateEdited := Some 5\<rparr>)]\<rparr>)
        (js ''C'') (js ''G'') (js ''fixed'') 0 fresh_server) = Inl (NotEditedAfter 30)"
    by (simp add: samples editMessage_def checkPrivateApiStatus_def Let_def editDateOf_def
        defaultDataLoopCondition_def editLoopCondition_def maxWaitMs_def)
  have stale_unsend: "fst (unsendMessage current_platform
        (no_answers\<lparr>w_before := Some (message_of (js ''G'')
            (js ''old'') 150\<lparr>m_dateEdited := Some 5\<rparr>),
          w_fetches := [None,
              Some (message_of (js ''G'') (js ''old'') 150\<lparr>m_dateEdited := Some 5\<rparr>),
            Some (message_of (js ''G'')
                (js ''old'') 150\<lparr>m_dateEdited := Some 5\<rparr>)]\<rparr>)
        (js ''C'') (js ''G'') 0 fresh_server) = Inl (NotUnsentAfter 30)"
    by (simp add: samples unsendMessage_def checkPrivateApiStatus_def Let_def editDateOf_def
        defaultDataLoopCondition_def editLoopCondition_def maxWaitMs_def)
  show ?thesis
    using edit unsend stale_edit stale_unsend
      C3_edit_baseline [where pf = current_platform
        and w = "(no_answers\<lparr>w_before := Some (message_of (js ''G'')
            (js ''old'') 150\<lparr>m_dateEdited := Some 5\<rparr>),
          w_fetches := [Some (message_of (js ''G'')
              (js ''old'') 150\<lparr>m_dateEdited := Some 5\<rparr>),
            Some (message_of (js ''G'')
                (js ''fixed'') 150\<lparr>m_dateEdited := Some 9\<rparr>)]\<rparr>)"
        and c = "js ''C''" and g = "js ''G''" and t = "js ''fixed''" and i = 0
        and s = fresh_server
        and r = "Some (message_of (js ''G'')
            (js ''fixed'') 150\<lparr>m_dateEdited := Some 9\<rparr>)"
        and r' = "Some (message_of (js ''G'')
            (js ''fixed'') 150\<lparr>m_dateEdited := Some 9\<rparr>)"
        and ?m0.0 = "(message_of (js ''G'') (js ''hi'') 150)"]
      C3_edit_baseline [where pf = current_platform
        and w = "(no_answers\<lparr>w_before := Some (message_of (js ''G'')
            (js ''old'') 150\<lparr>m_dateEdited := Some 5\<rparr>),
          w_fetches := [None,
              Some (message_of (js ''G'') (js ''old'') 150\<lparr>m_dateEdited := Some 5\<rparr>),
            Some (message_of (js ''G'')
                (js ''old'') 150\<lparr>m_dateEdited := Some 5\<rparr>)]\<rparr>)"
        and c = "js ''C''" and g = "js ''G''" and t = "js ''fixed''" and i = 0
        and s = fresh_server]
    by (simp add: samples editDateOf_def)
qed

text \<open>
  Claim C7, at an input where the code departs from it. The recipient is never seen as
  notified by any poll before the deadline: \<open>notifySilencedMessage\<close> hands back what
  the awaiter gives, no record and no error, while \<open>editMessage\<close> on the same answers
  raises its error naming the 30 seconds waited.
\<close>

theorem C7_notify_timeout_returns:
  "fst (notifySilencedMessage current_platform
        (no_answers\<lparr>w_fetches := [Some (message_of (js ''G'') (js ''hi'') 150),
            Some (message_of (js ''G'') (js ''hi'') 150),
            Some (message_of (js ''G'') (js ''hi'') 150)]\<rparr>)
        (js ''C'') (message_of (js ''G'') (js ''hi'') 150) fresh_server) = Inr None
   \<and> fst (editMessage current_platform
        (no_answers\<lparr>w_fetches := [Some (message_of (js ''G'') (js ''hi'') 150),
            Some (message_of (js ''G'') (js ''hi'') 150),
            Some (message_of (js ''G'') (js ''hi'') 150)]\<rparr>)
        (js ''C'') (js ''G'') (js ''fixed'') 0 fresh_server) = Inl (NotEditedAfter 30)"
  by (simp add: samples notifySilencedMessage_def editMessage_def checkPrivateApiStatus_def
      Let_def editDateOf_def defaultDataLoopCondition_def defaultExtraLoopCondition_def
      editLoopCondition_def notifyLoopCondition_def maxWaitMs_def)

section \<open>Reactions\<close>

lemma replaceFirst_absent: "c \<notin> set t \<Longrightarrow> replaceFirst t [c] [] = t"
  by (induction t) (auto simp: startsWith_def)

lemma replaceFirst_append:
  "replaceFirst (t @ u) [c] [] =
     (if c \<in> set t then replaceFirst t [c] [] @ u else t @ replaceFirst u [c] [])"
  by (induction t) (auto simp: startsWith_def)

lemma replaceFirst_quoted:
  assumes "c \<noteq> 8220" and "c \<noteq> 8221"
  shows "replaceFirst (quoted t) [c] [] = quoted (replaceFirst t [c] [])"
proof -
  have "replaceFirst (t @ [8221]) [c] [] = replaceFirst t [c] [] @ [8221]"
    using assms(2) by (simp add: replaceFirst_append replaceFirst_absent startsWith_def)
  then show ?thesis
    using assms(1) by (simp add: quoted_def startsWith_def)
qed

lemma sendReaction_manager:
  "privateApiOk pf \<Longrightarrow>
     messageManager (snd (sendReaction pf mp w p s)) = messageManager s @ [reactionAwaiter mp w p]"
  by (simp add: sendReaction_def checkPrivateApiStatus_def Let_def manager_add_def
      split: sum.splits option.splits)

lemma mediaDescription_image:
  "startsWith (case a_mimeType a of None \<Rightarrow> [] | Some t \<Rightarrow> t) (js ''image'')
     \<Longrightarrow> mediaDescription a = js ''an image''"
  by (simp add: mediaDescription_def)

lemma prefix5_distinct:
  "startsWith t (js ''video'') \<Longrightarrow> \<not> startsWith t (js ''image'')"
  "startsWith t (js ''audio'') \<Longrightarrow> \<not> startsWith t (js ''image'')"
  "startsWith t (js ''audio'') \<Longrightarrow> \<not> startsWith t (js ''video'')"
  by (auto simp: startsWith_def js_def)

lemma mediaDescription_video:
  "startsWith (case a_mimeType a of None \<Rightarrow> [] | Some t \<Rightarrow> t) (js ''video'')
     \<Longrightarrow> mediaDescription a = js ''a movie''"
  by (simp add: mediaDescription_def prefix5_distinct)

lemma mediaDescription_audio:
  "startsWith (case a_mimeType a of None \<Rightarrow> [] | Some t \<Rightarrow> t) (js ''audio'')
     \<Longrightarrow> mediaDescription a = js ''an audio message''"
  by (simp add: mediaDescription_def prefix5_distinct)

text \<open>
  Claim C4, as amended. A reaction send registers an expectation whose text is the
  prefix of the reaction type, a space, and: when an attachment is picked for the
  reacted-to message, its media description (\<open>an image\<close> for an image mime type,
  \<open>a movie\<close> for video, \<open>an audio message\<close> for audio or for a coreaudio uti of
  an attachment that is neither image nor video, \<open>an attachment\<close> otherwise); when
  none is picked, the message's text in quotation marks with the first occurrence of
  the placeholder character removed, which is the text itself when the placeholder
  does not occur in it.
\<close>

theorem C4_reaction_match_text:
  "(privateApiOk pf \<longrightarrow>
      messageManager (snd (sendReaction pf mp w p s)) = messageManager s @ [reactionAwaiter mp w p])
   \<and> p_text (reactionAwaiter mp w p) =
       Some (reactionMatchText mp (sr_message p) (sr_reaction p) (sr_partIndex p))
   \<and> (pickAttachment mp msg i = Some a \<longrightarrow>
        reactionMatchText mp msg r i = templ (reactionPrefix mp r) @ js '' '' @ mediaDescription a)
   \<and> (pickAttachment mp msg i = None \<and> invisibleMediaChar mp = [c] \<and> c \<noteq> 8220 \<and> c \<noteq> 8221 \<longrightarrow>
        reactionMatchText mp msg r i =
          templ (reactionPrefix mp r) @ js '' '' @ quoted (replaceFirst (reactedText msg) [c] []))
   \<and> (pickAttachment mp msg i = None \<and> invisibleMediaChar mp = [c] \<and> c \<noteq> 8220 \<and> c \<noteq> 8221
       \<and> c \<notin> set (reactedText msg) \<longrightarrow>
        reactionMatchText mp msg r i =
          templ (reactionPrefix mp r) @ js '' '' @ quoted (reactedText msg))
   \<and> (startsWith (case a_mimeType b of None \<Rightarrow> [] | Some t \<Rightarrow> t) (js ''image'') \<longrightarrow>
        mediaDescription b = js ''an image'')
   \<and> (startsWith (case a_mimeType b of None \<Rightarrow> [] | Some t \<Rightarrow> t) (js ''video'') \<longrightarrow>
        mediaDescription b = js ''a movie'')
   \<and> (startsWith (case a_mimeType b of None \<Rightarrow> [] | Some t \<Rightarrow> t) (js ''audio'') \<longrightarrow>
        mediaDescription b = js ''an audio message'')
   \<and> (\<not> startsWith (case a_mimeType b of None \<Rightarrow> [] | Some t \<Rightarrow> t) (js ''image'')
       \<and> \<not> startsWith (case a_mimeType b of None \<Rightarrow> [] | Some t \<Rightarrow> t) (js ''video'')
       \<and> includes_str (case a_uti b of None \<Rightarrow> [] | Some t \<Rightarrow> t) (js ''coreaudio-format'') \<longrightarrow>
        mediaDescription b = js ''an audio message'')
   \<and> (\<not> startsWith (case a_mimeType b of None \<Rightarrow> [] | Some t \<Rightarrow> t) (js ''image'')
       \<and> \<not> startsWith (case a_mimeType b of None \<Rightarrow> [] | Some t \<Rightarrow> t) (js ''video'')
       \<and> \<not> startsWith (case a_mimeType b of None \<Rightarrow> [] | Some t \<Rightarrow> t) (js ''audio'')
       \<and> \<not> includes_str (case a_uti b of None \<Rightarrow> [] | Some t \<Rightarrow> t) (js ''coreaudio-format'') \<longrightarrow>
        mediaDescription b = js ''an attachment'')"
proof -
  have registered: "privateApiOk pf \<longrightarrow>
      messageManager (snd (sendReaction pf mp w p s)) = messageManager s @ [reactionAwaiter mp w p]"
    by (simp add: sendReaction_manager)
  have expectation: "p_text (reactionAwaiter mp w p) =
       Some (reactionMatchText mp (sr_message p) (sr_reaction p) (sr_partIndex p))"
    by (simp add: reactionAwaiter_def)
  have media: "pickAttachment mp msg i = Some a \<longrightarrow>
        reactionMatchText mp msg r i = templ (reactionPrefix mp r) @ js '' '' @ mediaDescription a"
    by (simp add: reactionMatchText_def)
  have stripped: "pickAttachment mp msg i = None \<and> invisibleMediaChar mp = [c]
        \<and> c \<noteq> 8220 \<and> c \<noteq> 8221 \<longrightarrow>
        reactionMatchText mp msg r i =
          templ (reactionPrefix mp r) @ js '' '' @ quoted (replaceFirst (reactedText msg) [c] [])"
    by (simp add: reactionMatchText_def replaceFirst_quoted)
  have plain: "pickAttachment mp msg i = None \<and> invisibleMediaChar mp = [c]
        \<and> c \<noteq> 8220 \<and> c \<noteq> 8221 \<and> c \<notin> set (reactedText msg) \<longrightarrow>
        reactionMatchText mp msg r i =
          templ (reactionPrefix mp r) @ js '' '' @ quoted (reactedText msg)"
    by (simp add: reactionMatchText_def replaceFirst_quoted replaceFirst_absent)
  have coreaudio: "\<not> startsWith (case a_mimeType b of None \<Rightarrow> [] | Some t \<Rightarrow> t) (js ''image'')
       \<and> \<not> startsWith (case a_mimeType b of None \<Rightarrow> [] | Some t \<Rightarrow> t) (js ''video'')
       \<and> includes_str (case a_uti b of None \<Rightarrow> [] | Some t \<Rightarrow> t) (js ''coreaudio-format'') \<longrightarrow>
        mediaDescription b = js ''an audio message''"
    by (simp add: mediaDescription_def)
  have other: "\<not> startsWith (case a_mimeType b of None \<Rightarrow> [] | Some t \<Rightarrow> t) (js ''image'')
       \<and> \<not> startsWith (case a_mimeType b of None \<Rightarrow> [] | Some t \<Rightarrow> t) (js ''video'')
       \<and> \<not> startsWith (case a_mimeType b of None \<Rightarrow> [] | Some t \<Rightarrow> t) (js ''audio'')
       \<and> \<not> includes_str (case a_uti b of None \<Rightarrow> [] | Some t \<Rightarrow> t) (js ''coreaudio-format'') \<longrightarrow>
        mediaDescription b = js ''an attachment''"
    by (simp add: mediaDescription_def)
  from registered expectation media stripped plain coreaudio other
    mediaDescription_image [of b] mediaDescription_video [of b] mediaDescription_audio [of b]
  show ?thesis by blast
qed

text \<open>
  The claim as stated fails: for a message whose text is the placeholder character and
  which has no attachment, the expectation text is the prefix, a space and two
  quotation marks with nothing between them: neither the message's text in quotation
  marks nor a media description.
\<close>

theorem C4_reaction_match_text_counterexample:
  "reactedText (message_of (js ''R0'') [65532] 150) = [65532]
   \<and> reactionMatchText
        \<lparr>reactionTextMap = [js ''love'' \<mapsto> js ''Loved''],
         negativeReactionTextMap = [js ''-love'' \<mapsto> js ''Removed a heart from''],
         invisibleMediaChar = [65532]\<rparr>
        (message_of (js ''R0'') [65532] 150) (js ''love'') 0 = js ''Loved '' @ [8220, 8221]
   \<and> js ''Loved '' @ [8220, 8221] \<noteq> js ''Loved '' @ quoted [65532]
   \<and> js ''Loved '' @ [8220, 8221] \<noteq> js ''Loved an image''
   \<and> js ''Loved '' @ [8220, 8221] \<noteq> js ''Loved a movie''
   \<and> js ''Loved '' @ [8220, 8221] \<noteq> js ''Loved an audio message''
   \<and> js ''Loved '' @ [8220, 8221] \<noteq> js ''Loved an attachment''"
  by (simp add: samples reactionMatchText_def pickAttachment_def reactedText_def
      reactionPrefix_def templ_def quoted_def startsWith_def js_def)

theorem C4_reaction_match_text_witness:
  "map p_text (messageManager (snd (sendReaction current_platform
        \<lparr>reactionTextMap = [js ''love'' \<mapsto> js ''Loved''],
         negativeReactionTextMap = [js ''-love'' \<mapsto> js ''Removed a heart from''],
         invisibleMediaChar = [65532]\<rparr>
        (no_answers\<lparr>w_dispatch := Inr (Some (js ''id-3''))\<rparr>)
        \<lparr>sr_chatGuid = js ''C'',
         sr_message = message_of (js ''R1'') [65532] 150
         \<lparr>m_attachments := [\<lparr>a_guid = js ''at-1'', a_transferName
             = Some (js ''IMG_1.png''),
           a_mimeType = Some (js ''image/png''), a_uti = Some (js ''public.png'')\<rparr>]\<rparr>,
         sr_reaction = js ''love'', sr_tempGuid = Some (js ''temp-3''), sr_partIndex = 0\<rparr>
        fresh_server))) = [Some (js ''Loved an image'')]
   \<and> reactionMatchText
        \<lparr>reactionTextMap = [js ''love'' \<mapsto> js ''Loved''],
         negativeReactionTextMap = [js ''-love'' \<mapsto> js ''Removed a heart from''],
         invisibleMediaChar = [65532]\<rparr>
        (message_of (js ''R2'') (js ''Nice'') 150) (js ''love'') 0
            = js ''Loved '' @ quoted (js ''Nice'')
   \<and> reactionMatchText
        \<lparr>reactionTextMap = [js ''love'' \<mapsto> js ''Loved''],
         negativeReactionTextMap = [js ''-love'' \<mapsto> js ''Removed a heart from''],
         invisibleMediaChar = [65532]\<rparr>
        (message_of (js ''R3'') (65532 # js ''Nice'') 150) (js ''-love'') 0 =
       js ''Removed a heart from '' @ quoted (js ''Nice'')
   \<and> mediaDescription
        \<lparr>a_guid = js ''at-2'', a_transferName = Some (js ''clip.mov''),
           a_mimeType = Some (js ''video/quicktime''), a_uti = None\<rparr> = js ''a movie''
   \<and> mediaDescription
        \<lparr>a_guid = js ''at-3'', a_transferName = Some (js ''a.mp3''),
           a_mimeType = Some (js ''audio/mpeg''), a_uti = None\<rparr> = js ''an audio message''
   \<and> mediaDescription
        \<lparr>a_guid = js ''at-4'', a_transferName = Some (js ''a.caf''),
           a_mimeType = None, a_uti = Some (js ''com.apple.coreaudio-format'')\<rparr>
               = js ''an audio message''
   \<and> mediaDescription
        \<lparr>a_guid = js ''at-5'', a_transferName = Some (js ''a.pdf''),
           a_mimeType = Some (js ''application/pdf''), a_uti = Some (js ''com.adobe.pdf'')\<rparr>
               = js ''an attachment''"
proof -
  have pick: "pickAttachment
        \<lparr>reactionTextMap = [js ''love'' \<mapsto> js ''Loved''],
         negativeReactionTextMap = [js ''-love'' \<mapsto> js ''Removed a heart from''],
         invisibleMediaChar = [65532]\<rparr>
        (message_of (js ''R1'') [65532] 150
         \<lparr>m_attachments := [\<lparr>a_guid = js ''at-1'', a_transferName
             = Some (js ''IMG_1.png''),
           a_mimeType = Some (js ''image/png''), a_uti
               = Some (js ''public.png'')\<rparr>]\<rparr>) 0 =
      Some \<lparr>a_guid = js ''at-1'', a_transferName = Some (js ''IMG_1.png''),
           a_mimeType = Some (js ''image/png''), a_uti = Some (js ''public.png'')\<rparr>"
    by (simp add: samples pickAttachment_def reactedText_def js_def)
  have none: "pickAttachment
        \<lparr>reactionTextMap = [js ''love'' \<mapsto> js ''Loved''],
         negativeReactionTextMap = [js ''-love'' \<mapsto> js ''Removed a heart from''],
         invisibleMediaChar = [65532]\<rparr>
        (message_of (js ''R2'') (js ''Nice'') 150) 0 = None"
    by (simp add: samples pickAttachment_def reactedText_def js_def)
  have noneU: "pickAttachment
        \<lparr>reactionTextMap = [js ''love'' \<mapsto> js ''Loved''],
         negativeReactionTextMap = [js ''-love'' \<mapsto> js ''Removed a heart from''],
         invisibleMediaChar = [65532]\<rparr>
        (message_of (js ''R3'') (65532 # js ''Nice'') 150) 0 = None"
    by (simp add: samples pickAttachment_def reactedText_def js_def)
  have strip: "replaceFirst (65532 # js ''Nice'') [65532] [] = js ''Nice''"
    by (simp add: startsWith_def)
  have uti: "includes_str (js ''com.apple.coreaudio-format'') (js ''coreaudio-format'')"
    by (simp add: startsWith_def js_def)
  have notuti: "\<not> includes_str (js ''com.adobe.pdf'') (js ''coreaudio-format'')"
    by (simp add: startsWith_def js_def)
  show ?thesis
    using C4_reaction_match_text [where pf = current_platform
        and mp = "\<lparr>reactionTextMap = [js ''love'' \<mapsto> js ''Loved''],
         negativeReactionTextMap = [js ''-love'' \<mapsto> js ''Removed a heart from''],
         invisibleMediaChar = [65532]\<rparr>"
        and w = "(no_answers\<lparr>w_dispatch := Inr (Some (js ''id-3''))\<rparr>)"
        and p = "\<lparr>sr_chatGuid = js ''C'',
         sr_message = message_of (js ''R1'') [65532] 150
         \<lparr>m_attachments := [\<lparr>a_guid = js ''at-1'', a_transferName
             = Some (js ''IMG_1.png''),
           a_mimeType = Some (js ''image/png''), a_uti = Some (js ''public.png'')\<rparr>]\<rparr>,
         sr_reaction = js ''love'', sr_tempGuid = Some (js ''temp-3''), sr_partIndex = 0\<rparr>"
        and s = fresh_server
        and msg = "(message_of (js ''R1'') [65532] 150
         \<lparr>m_attachments := [\<lparr>a_guid = js ''at-1'', a_transferName
             = Some (js ''IMG_1.png''),
           a_mimeType = Some (js ''image/png''), a_uti = Some (js ''public.png'')\<rparr>]\<rparr>)"
        and i = 0
        and a = "\<lparr>a_guid = js ''at-1'', a_transferName = Some (js ''IMG_1.png''),
           a_mimeType = Some (js ''image/png''), a_uti = Some (js ''public.png'')\<rparr>"
        and b = "\<lparr>a_guid = js ''at-1'', a_transferName = Some (js ''IMG_1.png''),
           a_mimeType = Some (js ''image/png''), a_uti = Some (js ''public.png'')\<rparr>"
        and r = "js ''love''"]
      C4_reaction_match_text [where
        mp = "\<lparr>reactionTextMap = [js ''love'' \<mapsto> js ''Loved''],
         negativeReactionTextMap = [js ''-love'' \<mapsto> js ''Removed a heart from''],
         invisibleMediaChar = [65532]\<rparr>"
        and msg = "(message_of (js ''R2'') (js ''Nice'') 150)" and i = 0 and c = 65532 and r
            = "js ''love''"
        and b = "\<lparr>a_guid = js ''at-2'', a_transferName = Some (js ''clip.mov''),
           a_mimeType = Some (js ''video/quicktime''), a_uti = None\<rparr>"]
      C4_reaction_match_text [where
        mp = "\<lparr>reactionTextMap = [js ''love'' \<mapsto> js ''Loved''],
         negativeReactionTextMap = [js ''-love'' \<mapsto> js ''Removed a heart from''],
         invisibleMediaChar = [65532]\<rparr>"
        and msg = "(message_of (js ''R3'') (65532 # js ''Nice'') 150)" and i = 0 and c
            = 65532 and r = "js ''-love''"
        and b = "\<lparr>a_guid = js ''at-3'', a_transferName = Some (js ''a.mp3''),
           a_mimeType = Some (js ''audio/mpeg''), a_uti = None\<rparr>"]
      C4_reaction_match_text [where
        b = "\<lparr>a_guid = js ''at-4'', a_transferName = Some (js ''a.caf''),
           a_mimeType = None, a_uti = Some (js ''com.apple.coreaudio-format'')\<rparr>"]
      C4_reaction_match_text [where
        b = "\<lparr>a_guid = js ''at-5'', a_transferName = Some (js ''a.pdf''),
           a_mimeType = Some (js ''application/pdf''), a_uti = Some (js ''com.adobe.pdf'')\<rparr>"]
      pick none noneU strip uti notuti
    by (simp add: samples startsWith_def reactionPrefix_def templ_def reactedText_def
        reactionAwaiter_def js_def)
qed

end
